theory Spec2Isabelle
  imports Main
begin

section \<open>The pycdt command-line script\<close>

text \<open>
  The script \<^verbatim>\<open>scripts/pycdt.py\<close> has two handlers, \<^verbatim>\<open>generate_input_files\<close> and
  \<^verbatim>\<open>parse_vasp_output\<close>, and a \<^verbatim>\<open>main\<close> that declares the options of the two
  subcommands and dispatches. Everything the handlers do is a call of something outside
  the script: \<^verbatim>\<open>print\<close>, the database client \<^verbatim>\<open>MPRester\<close>, the symmetry analyzer, the
  file writers, the defect enumerator, the post-processor, the builtin \<^verbatim>\<open>int\<close>.
  A run of a handler is therefore modelled as the list of calls it makes, in order and
  with their arguments, together with its outcome: a normal return or the exception that
  left the handler.
\<close>

subsection \<open>Exceptions, calls and the outside world\<close>

text \<open>
  \<open>ValueError\<close> is what \<^verbatim>\<open>int\<close> raises on a malformed literal, \<open>SystemExit\<close> is how
  \<^verbatim>\<open>argparse\<close> leaves the process on a malformed command line (status 2), and
  \<open>Failure\<close> stands for any other exception of a library, named by its message.
\<close>

datatype exn = ValueError string | SystemExit int | Failure string

text \<open>
  One constructor for each call site of the handlers. The structure type \<open>'s\<close>, the
  enumerator object \<open>'c\<close> and the defect set \<open>'d\<close> are values of the libraries and stay
  abstract. The argument of \<open>Call_MPRester\<close> is \<open>None\<close> for \<^verbatim>\<open>MPRester()\<close> and
  \<open>Some k\<close> for \<^verbatim>\<open>MPRester(k)\<close>; the calls on the client \<^verbatim>\<open>mp\<close> carry the same value
  to say which client receives them. The second argument of
  \<open>Call_ChargedDefectsStructures\<close> is \<open>None\<close> when the call has no second positional
  argument and \<open>Some d\<close> when the dictionary \<open>d\<close> is passed; the third is the keyword
  \<^verbatim>\<open>cellmax\<close>. A Python dictionary from element names to pairs of integers is a map.
\<close>

type_synonym oxi_range_dict = "string \<rightharpoonup> int \<times> int"

datatype ('s, 'c, 'd) call =
    Call_print string
  | Call_MPRester "string option"
  | Call_get_structure_by_material_id "string option" string
  | Call_MPRester_exit "string option"
  | Call_get_conventional_standard_structure 's
  | Call_make_vasp_dielectric_files 's
  | Call_int string
  | Call_ChargedDefectsStructures 's "oxi_range_dict option" int
  | Call_defects 'c
  | Call_reduced_formula 's
  | Call_make_vasp_defect_files 'd string
  | Call_PostProcess "string option" string "string option"

text \<open>
  The world answers each call: \<open>Inl e\<close> when the call raises \<open>e\<close>, \<open>Inr v\<close> when it
  returns \<open>v\<close>. Each field is named after what the script calls.
  \<open>MPRester\<close> is the constructor followed by \<^verbatim>\<open>__enter__\<close> of the \<^verbatim>\<open>with\<close> statement;
  \<open>get_conventional_standard_structure\<close> is \<^verbatim>\<open>SpacegroupAnalyzer(s)\<close> followed by the
  method of that name; \<open>PostProcess\<close> is the constructor followed by
  \<^verbatim>\<open>parse_defect_calculations()\<close>; \<open>defects\<close> and \<open>reduced_formula\<close> are the attribute
  reads \<^verbatim>\<open>def_structs.defects\<close> and \<^verbatim>\<open>conv_struct.composition.reduced_formula\<close>;
  \<open>py_int\<close> is the builtin \<^verbatim>\<open>int\<close> on a string.
\<close>

record ('s, 'c, 'd) world =
  py_int :: "string \<Rightarrow> exn + int"
  MPRester :: "string option \<Rightarrow> exn + unit"
  get_structure_by_material_id :: "string option \<Rightarrow> string \<Rightarrow> exn + 's"
  get_conventional_standard_structure :: "'s \<Rightarrow> exn + 's"
  make_vasp_dielectric_files :: "'s \<Rightarrow> exn + unit"
  ChargedDefectsStructures :: "'s \<Rightarrow> oxi_range_dict option \<Rightarrow> int \<Rightarrow> exn + 'c"
  defects :: "'c \<Rightarrow> exn + 'd"
  reduced_formula :: "'s \<Rightarrow> exn + string"
  make_vasp_defect_files :: "'d \<Rightarrow> string \<Rightarrow> exn + unit"
  PostProcess :: "string option \<Rightarrow> string \<Rightarrow> string option \<Rightarrow> exn + unit"

subsection \<open>Runs\<close>

type_synonym ('s, 'c, 'd, 'a) run = "('s, 'c, 'd) call list \<times> (exn + 'a)"

definition call :: "('s, 'c, 'd) call \<Rightarrow> exn + 'a \<Rightarrow> ('s, 'c, 'd, 'a) run" where
  "call ev r = ([ev], r)"

definition ret :: "'a \<Rightarrow> ('s, 'c, 'd, 'a) run" where
  "ret x = ([], Inr x)"

text \<open>
  Sequencing of two statements: an exception of the first is the outcome and the second
  does not run. The script has no \<^verbatim>\<open>try\<close>, so this is its only rule of control for
  exceptions.
\<close>

definition andThen ::
  "('s, 'c, 'd, 'a) run \<Rightarrow> ('a \<Rightarrow> ('s, 'c, 'd, 'b) run) \<Rightarrow> ('s, 'c, 'd, 'b) run" where
  "andThen m f =
     (case m of
        (t, Inl e) \<Rightarrow> (t, Inl e)
      | (t, Inr x) \<Rightarrow> (case f x of (t', r) \<Rightarrow> (t @ t', r)))"

text \<open>
  What the world answers to a call, as far as exceptions go. \<^verbatim>\<open>print\<close> does not raise,
  and \<^verbatim>\<open>__exit__\<close> of the client closes the connection, does not raise and does not
  swallow the exception of the block (it returns nothing), as the spec's "scoped
  open/close" of the remote-database client says.
\<close>

definition raising :: "exn + 'a \<Rightarrow> exn option" where
  "raising r = (case r of Inl e \<Rightarrow> Some e | Inr _ \<Rightarrow> None)"

fun raised :: "('s, 'c, 'd) world \<Rightarrow> ('s, 'c, 'd) call \<Rightarrow> exn option" where
  "raised w (Call_print s) = None"
| "raised w (Call_MPRester k) = raising (MPRester w k)"
| "raised w (Call_get_structure_by_material_id k i) =
     raising (get_structure_by_material_id w k i)"
| "raised w (Call_MPRester_exit k) = None"
| "raised w (Call_get_conventional_standard_structure s) =
     raising (get_conventional_standard_structure w s)"
| "raised w (Call_make_vasp_dielectric_files s) = raising (make_vasp_dielectric_files w s)"
| "raised w (Call_int s) = raising (py_int w s)"
| "raised w (Call_ChargedDefectsStructures s d n) =
     raising (ChargedDefectsStructures w s d n)"
| "raised w (Call_defects c) = raising (defects w c)"
| "raised w (Call_reduced_formula s) = raising (reduced_formula w s)"
| "raised w (Call_make_vasp_defect_files d f) = raising (make_vasp_defect_files w d f)"
| "raised w (Call_PostProcess r i k) = raising (PostProcess w r i k)"

subsection \<open>The parsed arguments\<close>

text \<open>
  The \<^verbatim>\<open>Namespace\<close> that \<^verbatim>\<open>argparse\<close> hands to a handler, with the \<^verbatim>\<open>dest\<close> names of
  \<^verbatim>\<open>main\<close>. An option that was not given is \<open>None\<close>. \<^verbatim>\<open>--oxi_range\<close> has
  \<^verbatim>\<open>action='append', nargs=3\<close>: its value is \<open>None\<close> or the list of the triples given,
  each of exactly three strings.
\<close>

record namespace =
  mpid :: "string option"
  mapi_key :: "string option"

record generate_namespace = namespace +
  nmax :: int
  oxi_range :: "(string \<times> string \<times> string) list option"

record output_namespace = namespace +
  root_fldr :: "string option"

text \<open>Python's truth value of an optional string and of an optional list.\<close>

fun truthy :: "'a list option \<Rightarrow> bool" where
  "truthy None = False"
| "truthy (Some xs) = (xs \<noteq> [])"

subsection \<open>The handlers\<close>

definition banner :: string where
  "banner = ''============'' @ [CHR 0x0A] @ ''ERROR: Provide an mpid'' @ [CHR 0x0A]
     @ ''============''"

text \<open>
  \<^verbatim>\<open>with MPRester(...) as mp: prim_struct = mp.get_structure_by_material_id(mpid)\<close>:
  the client is opened, the structure is fetched, and the client is closed whether the
  fetch returned or raised. The class \<^verbatim>\<open>MPRester\<close> is not part of the script; its
  \<^verbatim>\<open>__exit__\<close> is taken from the spec's "scoped open/close": it closes the connection,
  raises nothing and lets an exception of the block pass.
\<close>

definition with_MPRester ::
  "('s, 'c, 'd) world \<Rightarrow> string option \<Rightarrow> string \<Rightarrow> ('s, 'c, 'd, 's) run" where
  "with_MPRester w key i =
     andThen (call (Call_MPRester key) (MPRester w key)) (\<lambda>_.
       case call (Call_get_structure_by_material_id key i)
              (get_structure_by_material_id w key i) of
         (t, r) \<Rightarrow> (t @ [Call_MPRester_exit key], r))"

text \<open>
  The loop of lines 75 to 77: for each triple in order, the right-hand side is evaluated
  first (\<^verbatim>\<open>int\<close> of the second string, then of the third), then the entry is stored
  under the first string.
\<close>

fun oxi_range_loop ::
  "('s, 'c, 'd) world \<Rightarrow> (string \<times> string \<times> string) list \<Rightarrow> oxi_range_dict
     \<Rightarrow> ('s, 'c, 'd, oxi_range_dict) run" where
  "oxi_range_loop w [] oxi_range_dict = ret oxi_range_dict"
| "oxi_range_loop w ((el, low, high) # rest) oxi_range_dict =
     andThen (call (Call_int low) (py_int w low)) (\<lambda>l.
     andThen (call (Call_int high) (py_int w high)) (\<lambda>h.
       oxi_range_loop w rest (oxi_range_dict(el \<mapsto> (l, h)))))"

text \<open>
  Lines 73 to 81: the enumerator is called with the dictionary when \<^verbatim>\<open>oxi_range\<close> is
  true (a non-empty list), and without a second positional argument otherwise.
\<close>

definition make_def_structs ::
  "('s, 'c, 'd) world \<Rightarrow> 's \<Rightarrow> (string \<times> string \<times> string) list option \<Rightarrow> int
     \<Rightarrow> ('s, 'c, 'd, 'c) run" where
  "make_def_structs w conv_struct ranges cellmax =
     (case ranges of
        None \<Rightarrow>
          call (Call_ChargedDefectsStructures conv_struct None cellmax)
            (ChargedDefectsStructures w conv_struct None cellmax)
      | Some triples \<Rightarrow>
          if triples = [] then
            call (Call_ChargedDefectsStructures conv_struct None cellmax)
              (ChargedDefectsStructures w conv_struct None cellmax)
          else
            andThen (oxi_range_loop w triples Map.empty) (\<lambda>oxi_range_dict.
              call (Call_ChargedDefectsStructures conv_struct (Some oxi_range_dict) cellmax)
                (ChargedDefectsStructures w conv_struct (Some oxi_range_dict) cellmax)))"

definition generate_input_files ::
  "('s, 'c, 'd) world \<Rightarrow> generate_namespace \<Rightarrow> ('s, 'c, 'd, unit) run" where
  "generate_input_files w args =
     (case mpid args of
        None \<Rightarrow> call (Call_print banner) (Inr ())
      | Some i \<Rightarrow>
          if i = [] then call (Call_print banner) (Inr ())
          else
            andThen
              (if \<not> truthy (mapi_key args) then with_MPRester w None i
               else with_MPRester w (mapi_key args) i) (\<lambda>prim_struct.
            andThen
              (call (Call_get_conventional_standard_structure prim_struct)
                 (get_conventional_standard_structure w prim_struct)) (\<lambda>conv_struct.
            andThen
              (call (Call_make_vasp_dielectric_files prim_struct)
                 (make_vasp_dielectric_files w prim_struct)) (\<lambda>_.
            andThen (make_def_structs w conv_struct (oxi_range args) (nmax args))
              (\<lambda>def_structs.
            andThen (call (Call_defects def_structs) (defects w def_structs)) (\<lambda>ds.
            andThen (call (Call_reduced_formula conv_struct) (reduced_formula w conv_struct))
              (\<lambda>formula.
            call (Call_make_vasp_defect_files ds formula)
              (make_vasp_defect_files w ds formula))))))))"

definition parse_vasp_output ::
  "('s, 'c, 'd) world \<Rightarrow> output_namespace \<Rightarrow> ('s, 'c, 'd, unit) run" where
  "parse_vasp_output w args =
     (case mpid args of
        None \<Rightarrow> call (Call_print banner) (Inr ())
      | Some i \<Rightarrow>
          if i = [] then call (Call_print banner) (Inr ())
          else
            andThen
              (if \<not> truthy (mapi_key args) then with_MPRester w None i
               else with_MPRester w (mapi_key args) i) (\<lambda>prim_struct.
            call (Call_PostProcess (root_fldr args) i (mapi_key args))
              (PostProcess w (root_fldr args) i (mapi_key args))))"

subsection \<open>The command line\<close>

text \<open>
  \<^verbatim>\<open>str.lower\<close> on a byte string: the letters A to Z are replaced by a to z, every
  other byte is kept.
\<close>

definition lower_char :: "char \<Rightarrow> char" where
  "lower_char c =
     (let n = (of_char c :: nat) in if 65 \<le> n \<and> n \<le> 90 then char_of (n + 32) else c)"

definition str_lower :: "string \<Rightarrow> string" where
  "str_lower s = map lower_char s"

text \<open>
  The option values as typed, before \<^verbatim>\<open>argparse\<close> converts them: \<open>None\<close> for an
  option that is absent, and the triples of every \<^verbatim>\<open>--oxi_range\<close> in order.
\<close>

record options =
  opt_mpid :: "string option"
  opt_mapi_key :: "string option"

record generate_options = options +
  opt_nmax :: "string option"
  opt_oxi_range :: "(string \<times> string \<times> string) list"

record output_options = options +
  opt_dir :: "string option"

datatype command_line =
    Generate_input_files generate_options
  | Parse_vasp_output output_options

text \<open>
  The declarations of lines 147 to 168. \<^verbatim>\<open>--mpid\<close> has \<^verbatim>\<open>type=str.lower\<close> and no
  default; \<^verbatim>\<open>--mapi_key\<close> and \<^verbatim>\<open>--dir\<close> are strings with default \<open>None\<close>;
  \<^verbatim>\<open>--nmax\<close> has \<^verbatim>\<open>type=int\<close> and default 128, and a value that \<^verbatim>\<open>int\<close> rejects
  ends the process with status 2 before any handler runs; \<^verbatim>\<open>--oxi_range\<close> appends.
\<close>

definition parse_generate_args ::
  "('s, 'c, 'd) world \<Rightarrow> generate_options \<Rightarrow> exn + generate_namespace" where
  "parse_generate_args w opts =
     (case (case opt_nmax opts of
              None \<Rightarrow> Inr 128
            | Some s \<Rightarrow> (case py_int w s of Inl e \<Rightarrow> Inl (SystemExit 2) | Inr n \<Rightarrow> Inr n)) of
        Inl e \<Rightarrow> Inl e
      | Inr n \<Rightarrow>
          Inr \<lparr> mpid = map_option str_lower (opt_mpid opts),
                mapi_key = opt_mapi_key opts,
                nmax = n,
                oxi_range =
                  (if opt_oxi_range opts = [] then None else Some (opt_oxi_range opts)) \<rparr>)"

definition parse_output_args :: "output_options \<Rightarrow> output_namespace" where
  "parse_output_args opts =
     \<lparr> mpid = map_option str_lower (opt_mpid opts),
       mapi_key = opt_mapi_key opts,
       root_fldr = opt_dir opts \<rparr>"

definition main :: "('s, 'c, 'd) world \<Rightarrow> command_line \<Rightarrow> ('s, 'c, 'd, unit) run" where
  "main w cl =
     (case cl of
        Generate_input_files opts \<Rightarrow>
          (case parse_generate_args w opts of
             Inl e \<Rightarrow> ([], Inl e)
           | Inr args \<Rightarrow> generate_input_files w args)
      | Parse_vasp_output opts \<Rightarrow> parse_vasp_output w (parse_output_args opts))"

subsection \<open>Notions used in the statements\<close>

text \<open>Every call of a run satisfies \<open>P\<close>.\<close>

definition every_call ::
  "(('s, 'c, 'd) call \<Rightarrow> bool) \<Rightarrow> ('s, 'c, 'd, 'a) run \<Rightarrow> bool" where
  "every_call P r = list_all P (fst r)"

text \<open>
  The argument with which the handlers construct the client (lines 61 to 66 and 109 to
  114): none when \<^verbatim>\<open>mapi_key\<close> is false, \<^verbatim>\<open>mapi_key\<close> otherwise.
\<close>

definition client_key :: "string option \<Rightarrow> string option" where
  "client_key key = (if truthy key then key else None)"

text \<open>Whatever a call of the run raised is the outcome of the run.\<close>

definition propagates :: "('s, 'c, 'd) world \<Rightarrow> ('s, 'c, 'd, 'a) run \<Rightarrow> bool" where
  "propagates w r = list_all (\<lambda>ev. \<forall>e. raised w ev = Some e \<longrightarrow> snd r = Inl e) (fst r)"

subsection \<open>Example worlds and arguments\<close>

text \<open>
  The value that \<^verbatim>\<open>int\<close> gives to a decimal literal with an optional sign; any other
  string is rejected here. It stands for the builtin in the example worlds below, which
  apply it to such literals and to a string that is no number at all.
\<close>

definition digit_value :: "char \<Rightarrow> nat option" where
  "digit_value c =
     (let n = (of_char c :: nat) in if 48 \<le> n \<and> n \<le> 57 then Some (n - 48) else None)"

fun digits_value :: "nat \<Rightarrow> string \<Rightarrow> nat option" where
  "digits_value acc [] = Some acc"
| "digits_value acc (c # cs) =
     (case digit_value c of None \<Rightarrow> None | Some v \<Rightarrow> digits_value (10 * acc + v) cs)"

definition decimal_int :: "string \<Rightarrow> exn + int" where
  "decimal_int s =
     (case s of
        [] \<Rightarrow> Inl (ValueError s)
      | c # cs \<Rightarrow>
          (let ds = (if c = CHR ''-'' \<or> c = CHR ''+'' then cs else s) in
           if ds = [] then Inl (ValueError s)
           else (case digits_value 0 ds of
                   None \<Rightarrow> Inl (ValueError s)
                 | Some n \<Rightarrow> Inr (if c = CHR ''-'' then - int n else int n))))"

text \<open>A world in which every library call returns.\<close>

definition example_world :: "(string, string, string) world" where
  "example_world =
     \<lparr> py_int = decimal_int,
       MPRester = (\<lambda>k. Inr ()),
       get_structure_by_material_id = (\<lambda>k i. Inr ''primitive''),
       get_conventional_standard_structure = (\<lambda>s. Inr ''conventional''),
       make_vasp_dielectric_files = (\<lambda>s. Inr ()),
       ChargedDefectsStructures = (\<lambda>s d n. Inr ''enumerator''),
       defects = (\<lambda>c. Inr ''defect set''),
       reduced_formula = (\<lambda>s. Inr ''GaAs''),
       make_vasp_defect_files = (\<lambda>d f. Inr ()),
       PostProcess = (\<lambda>r i k. Inr ()) \<rparr>"

text \<open>A world in which the database cannot be reached.\<close>

definition offline_world :: "(string, string, string) world" where
  "offline_world =
     example_world \<lparr> get_structure_by_material_id :=
       (\<lambda>k i. Inl (Failure ''connection refused'')) \<rparr>"

text \<open>A world whose database returns another structure.\<close>

definition relabelled_world :: "(string, string, string) world" where
  "relabelled_world =
     example_world \<lparr> get_structure_by_material_id := (\<lambda>k i. Inr ''another primitive'') \<rparr>"

text \<open>Arguments and option values for the examples.\<close>

definition example_generate_args :: generate_namespace where
  "example_generate_args =
     \<lparr> mpid = Some ''mp-2534'', mapi_key = Some ''secret'', nmax = 64,
       oxi_range = Some [(''Ga'', ''1'', ''3''), (''As'', ''-3'', ''5'')] \<rparr>"

definition example_output_args :: output_namespace where
  "example_output_args =
     \<lparr> mpid = Some ''mp-2534'', mapi_key = Some ''secret'', root_fldr = Some ''runs'' \<rparr>"

definition missing_mpid_generate_args :: generate_namespace where
  "missing_mpid_generate_args =
     \<lparr> mpid = None, mapi_key = Some ''secret'', nmax = 128, oxi_range = None \<rparr>"

definition empty_mpid_output_args :: output_namespace where
  "empty_mpid_output_args = \<lparr> mpid = Some [], mapi_key = None, root_fldr = None \<rparr>"

definition missing_mpid_generate_options :: generate_options where
  "missing_mpid_generate_options =
     \<lparr> opt_mpid = None, opt_mapi_key = None, opt_nmax = Some ''64'', opt_oxi_range = [] \<rparr>"

definition empty_mpid_output_options :: output_options where
  "empty_mpid_output_options = \<lparr> opt_mpid = Some [], opt_mapi_key = None, opt_dir = None \<rparr>"

definition plain_generate_args :: generate_namespace where
  "plain_generate_args =
     \<lparr> mpid = Some ''mp-2534'', mapi_key = None, nmax = 128, oxi_range = None \<rparr>"

definition duplicate_element_args :: generate_namespace where
  "duplicate_element_args =
     \<lparr> mpid = Some ''mp-2534'', mapi_key = None, nmax = 128,
       oxi_range = Some [(''As'', ''-3'', ''5''), (''As'', ''-1'', ''2'')] \<rparr>"

definition malformed_bound_args :: generate_namespace where
  "malformed_bound_args =
     \<lparr> mpid = Some ''mp-2534'', mapi_key = None, nmax = 128,
       oxi_range = Some [(''As'', ''low'', ''5'')] \<rparr>"

definition empty_key_generate_args :: generate_namespace where
  "empty_key_generate_args =
     \<lparr> mpid = Some ''mp-2534'', mapi_key = Some [], nmax = 128, oxi_range = None \<rparr>"

definition empty_key_output_args :: output_namespace where
  "empty_key_output_args =
     \<lparr> mpid = Some ''mp-2534'', mapi_key = Some [], root_fldr = Some ''runs'' \<rparr>"

definition default_nmax_options :: generate_options where
  "default_nmax_options =
     \<lparr> opt_mpid = Some ''MP-2534'', opt_mapi_key = None, opt_nmax = None,
       opt_oxi_range = [] \<rparr>"

definition uppercase_output_options :: output_options where
  "uppercase_output_options =
     \<lparr> opt_mpid = Some ''MP-2534'', opt_mapi_key = None, opt_dir = Some ''runs'' \<rparr>"

section \<open>Properties\<close>

subsection \<open>Option parsing\<close>

lemma parse_generate_args_fields:
  "parse_generate_args w opts = Inr a \<Longrightarrow>
     mpid a = map_option str_lower (opt_mpid opts) \<and> mapi_key a = opt_mapi_key opts \<and>
     oxi_range a = (if opt_oxi_range opts = [] then None else Some (opt_oxi_range opts)) \<and>
     (case opt_nmax opts of None \<Rightarrow> nmax a = 128 | Some s \<Rightarrow> py_int w s = Inr (nmax a))"
  by (auto simp: parse_generate_args_def split: option.splits sum.splits)

lemma decimal_int_64 [simp]: "decimal_int ''64'' = Inr 64"
  by code_simp

subsection \<open>Sequencing\<close>

lemma fst_andThen:
  "fst (andThen m f) = fst m @ (case snd m of Inl e \<Rightarrow> [] | Inr x \<Rightarrow> fst (f x))"
  by (cases m) (simp add: andThen_def split: sum.splits prod.splits)

lemma snd_andThen:
  "snd (andThen m f) = (case snd m of Inl e \<Rightarrow> Inl e | Inr x \<Rightarrow> snd (f x))"
  by (cases m) (simp add: andThen_def split: sum.splits prod.splits)

lemma snd_andThen_Inr:
  "snd (andThen m f) = Inr y \<longleftrightarrow> (\<exists>x. snd m = Inr x \<and> snd (f x) = Inr y)"
  by (simp add: snd_andThen split: sum.splits)

lemma fst_call [simp]: "fst (call ev r) = [ev]"
  by (simp add: call_def)

lemma snd_call [simp]: "snd (call ev r) = r"
  by (simp add: call_def)

lemma every_call_andThen:
  "every_call P m \<Longrightarrow> (\<And>x. snd m = Inr x \<Longrightarrow> every_call P (f x)) \<Longrightarrow>
     every_call P (andThen m f)"
  by (simp add: every_call_def fst_andThen split: sum.splits)

lemma every_call_call [simp]: "every_call P (call ev r) \<longleftrightarrow> P ev"
  by (simp add: every_call_def)

lemma every_call_ret [simp]: "every_call P (ret x)"
  by (simp add: every_call_def ret_def)

lemma every_callD: "every_call P r \<Longrightarrow> ev \<in> set (fst r) \<Longrightarrow> P ev"
  by (simp add: every_call_def list_all_iff)

subsection \<open>The database client\<close>

lemma with_MPRester_eq:
  "with_MPRester w k i =
     (case MPRester w k of
        Inl e \<Rightarrow> ([Call_MPRester k], Inl e)
      | Inr _ \<Rightarrow>
          ([Call_MPRester k, Call_get_structure_by_material_id k i, Call_MPRester_exit k],
           get_structure_by_material_id w k i))"
  by (simp add: with_MPRester_def andThen_def call_def split: sum.splits)

lemma every_call_with_MPRester:
  "P (Call_MPRester k) \<Longrightarrow> P (Call_get_structure_by_material_id k i) \<Longrightarrow>
     P (Call_MPRester_exit k) \<Longrightarrow> every_call P (with_MPRester w k i)"
  by (simp add: with_MPRester_eq every_call_def split: sum.splits)

lemma snd_with_MPRester:
  "snd (with_MPRester w k i) = Inr s \<longleftrightarrow>
     MPRester w k = Inr () \<and> get_structure_by_material_id w k i = Inr s"
  by (simp add: with_MPRester_eq split: sum.splits)

lemma fst_with_MPRester:
  "snd (with_MPRester w k i) = Inr s \<Longrightarrow>
     fst (with_MPRester w k i) =
       [Call_MPRester k, Call_get_structure_by_material_id k i, Call_MPRester_exit k]"
  by (simp add: with_MPRester_eq split: sum.splits)

lemma fetch_branches:
  "(if \<not> truthy (mapi_key a) then with_MPRester w None i else with_MPRester w (mapi_key a) i)
     = with_MPRester w (client_key (mapi_key a)) i"
  by (simp add: client_key_def)

subsection \<open>The loop over the oxidation ranges\<close>

lemma loop_step:
  assumes "oxi_range_loop w ((el, lo, hi) # xs) d0 = (t, Inr d)"
  obtains l h t' where "py_int w lo = Inr l" and "py_int w hi = Inr h"
    and "oxi_range_loop w xs (d0(el \<mapsto> (l, h))) = (t', Inr d)"
    and "t = Call_int lo # Call_int hi # t'"
  using assms by (auto simp: andThen_def call_def split: prod.splits sum.splits)

lemma every_call_loop:
  "(\<And>s. P (Call_int s)) \<Longrightarrow> every_call P (oxi_range_loop w xs d)"
proof (induction xs arbitrary: d)
  case Nil
  show ?case by simp
next
  case (Cons x xs)
  obtain el lo hi where x: "x = (el, lo, hi)" by (cases x)
  show ?case unfolding x oxi_range_loop.simps
    by (intro every_call_andThen) (simp_all add: Cons)
qed

lemma loop_dom:
  "oxi_range_loop w xs d0 = (t, Inr d) \<Longrightarrow> dom d = dom d0 \<union> fst ` set xs"
proof (induction xs arbitrary: d0 t)
  case Nil
  then show ?case by (simp add: ret_def)
next
  case (Cons x xs)
  obtain el lo hi where x: "x = (el, lo, hi)" by (cases x)
  from Cons.prems [unfolded x] obtain l h t' where
    "oxi_range_loop w xs (d0(el \<mapsto> (l, h))) = (t', Inr d)"
    by (rule loop_step)
  from Cons.IH [OF this] x show ?case by auto
qed

lemma loop_other:
  "oxi_range_loop w xs d0 = (t, Inr d) \<Longrightarrow> k \<notin> fst ` set xs \<Longrightarrow> d k = d0 k"
proof (induction xs arbitrary: d0 t)
  case Nil
  then show ?case by (simp add: ret_def)
next
  case (Cons x xs)
  obtain el lo hi where x: "x = (el, lo, hi)" by (cases x)
  from Cons.prems(1) [unfolded x] obtain l h t' where
    "oxi_range_loop w xs (d0(el \<mapsto> (l, h))) = (t', Inr d)"
    by (rule loop_step)
  from Cons.IH [OF this] x Cons.prems(2) show ?case by auto
qed

lemma loop_last:
  "oxi_range_loop w (ys @ (el, lo, hi) # zs) d0 = (t, Inr d) \<Longrightarrow> el \<notin> fst ` set zs \<Longrightarrow>
     \<exists>l h. py_int w lo = Inr l \<and> py_int w hi = Inr h \<and> d el = Some (l, h)"
proof (induction ys arbitrary: d0 t)
  case Nil
  from Nil.prems(1) have "oxi_range_loop w ((el, lo, hi) # zs) d0 = (t, Inr d)"
    by simp
  then obtain l h t' where
    ints: "py_int w lo = Inr l" "py_int w hi = Inr h" and
    rest: "oxi_range_loop w zs (d0(el \<mapsto> (l, h))) = (t', Inr d)"
    by (rule loop_step)
  from loop_other [OF rest Nil.prems(2)] ints show ?case by simp
next
  case (Cons y ys)
  obtain el' lo' hi' where y: "y = (el', lo', hi')" by (cases y)
  from Cons.prems(1) have
    "oxi_range_loop w ((el', lo', hi') # (ys @ (el, lo, hi) # zs)) d0 = (t, Inr d)"
    by (simp add: y)
  then obtain l h t' where
    "oxi_range_loop w (ys @ (el, lo, hi) # zs) (d0(el' \<mapsto> (l, h))) = (t', Inr d)"
    by (rule loop_step)
  from Cons.IH [OF this Cons.prems(2)] show ?case .
qed

lemma loop_trace:
  "oxi_range_loop w xs d0 = (t, Inr d) \<Longrightarrow>
     t = map Call_int (concat (map (\<lambda>(el, lo, hi). [lo, hi]) xs))"
proof (induction xs arbitrary: d0 t)
  case Nil
  then show ?case by (simp add: ret_def)
next
  case (Cons x xs)
  obtain el lo hi where x: "x = (el, lo, hi)" by (cases x)
  from Cons.prems [unfolded x] obtain l h t' where
    "oxi_range_loop w xs (d0(el \<mapsto> (l, h))) = (t', Inr d)" "t = Call_int lo # Call_int hi # t'"
    by (rule loop_step)
  with Cons.IH [OF this(1)] x show ?case by simp
qed

subsection \<open>The call of the enumerator\<close>

lemma make_def_structs_returns:
  assumes "snd (make_def_structs w conv xr n) = Inr c"
  shows "\<exists>arg. ChargedDefectsStructures w conv arg n = Inr c \<and>
           (case xr of
              None \<Rightarrow> arg = None
            | Some xs \<Rightarrow>
                (if xs = [] then arg = None
                 else (\<exists>t d. oxi_range_loop w xs Map.empty = (t, Inr d) \<and> arg = Some d))) \<and>
           fst (make_def_structs w conv xr n) =
             map Call_int
               (case xr of None \<Rightarrow> [] | Some xs \<Rightarrow> concat (map (\<lambda>(el, lo, hi). [lo, hi]) xs))
             @ [Call_ChargedDefectsStructures conv arg n]"
proof (cases xr)
  case None
  with assms show ?thesis by (simp add: make_def_structs_def)
next
  case (Some xs)
  show ?thesis
  proof (cases "xs = []")
    case True
    with Some assms show ?thesis by (simp add: make_def_structs_def)
  next
    case False
    from assms Some False obtain d where
      d: "snd (oxi_range_loop w xs Map.empty) = Inr d" and
      c: "ChargedDefectsStructures w conv (Some d) n = Inr c"
      by (auto simp: make_def_structs_def snd_andThen_Inr)
    obtain t where loop: "oxi_range_loop w xs Map.empty = (t, Inr d)"
      using d by (cases "oxi_range_loop w xs Map.empty") simp
    from loop_trace [OF loop] loop c Some False show ?thesis
      by (simp add: make_def_structs_def fst_andThen)
  qed
qed

lemma every_call_make_def_structs:
  assumes "\<And>xs s. xr = Some xs \<Longrightarrow> xs \<noteq> [] \<Longrightarrow> P (Call_int s)"
    and "xr = None \<or> xr = Some [] \<Longrightarrow> P (Call_ChargedDefectsStructures conv None n)"
    and "\<And>xs t d. xr = Some xs \<Longrightarrow> xs \<noteq> [] \<Longrightarrow>
           oxi_range_loop w xs Map.empty = (t, Inr d) \<Longrightarrow>
           P (Call_ChargedDefectsStructures conv (Some d) n)"
  shows "every_call P (make_def_structs w conv xr n)"
proof (cases xr)
  case None
  with assms(2) show ?thesis by (simp add: make_def_structs_def)
next
  case (Some xs)
  show ?thesis
  proof (cases "xs = []")
    case True
    with Some assms(2) show ?thesis by (simp add: make_def_structs_def)
  next
    case False
    show ?thesis
      unfolding make_def_structs_def Some option.case if_not_P [OF False]
    proof (intro every_call_andThen, goal_cases)
      case 1
      show ?case by (rule every_call_loop) (rule assms(1) [OF Some False])
    next
      case (2 d)
      then obtain t where "oxi_range_loop w xs Map.empty = (t, Inr d)"
        by (cases "oxi_range_loop w xs Map.empty") simp
      from assms(3) [OF Some False this] show ?case by simp
    qed
  qed
qed

subsection \<open>Every call of \<open>generate_input_files\<close>\<close>

text \<open>
  A property holds of every call of a run of \<open>generate_input_files\<close> when it holds at
  each call site, given what the calls before it returned.
\<close>

lemma generate_every_call:
  fixes w :: "('s, 'c, 'd) world" and a :: generate_namespace
  defines "k \<equiv> client_key (mapi_key a)"
  assumes p_print: "P (Call_print banner)"
    and p_client: "\<And>i. mpid a = Some i \<Longrightarrow> i \<noteq> [] \<Longrightarrow>
          P (Call_MPRester k) \<and> P (Call_get_structure_by_material_id k i) \<and>
          P (Call_MPRester_exit k)"
    and p_conv: "\<And>i prim. mpid a = Some i \<Longrightarrow> i \<noteq> [] \<Longrightarrow>
          get_structure_by_material_id w k i = Inr prim \<Longrightarrow>
          P (Call_get_conventional_standard_structure prim)"
    and p_dielectric: "\<And>i prim conv. mpid a = Some i \<Longrightarrow> i \<noteq> [] \<Longrightarrow>
          get_structure_by_material_id w k i = Inr prim \<Longrightarrow>
          get_conventional_standard_structure w prim = Inr conv \<Longrightarrow>
          P (Call_make_vasp_dielectric_files prim)"
    and p_int: "\<And>xs s. oxi_range a = Some xs \<Longrightarrow> xs \<noteq> [] \<Longrightarrow> P (Call_int s)"
    and p_plain: "\<And>i prim conv. mpid a = Some i \<Longrightarrow> i \<noteq> [] \<Longrightarrow>
          get_structure_by_material_id w k i = Inr prim \<Longrightarrow>
          get_conventional_standard_structure w prim = Inr conv \<Longrightarrow>
          make_vasp_dielectric_files w prim = Inr () \<Longrightarrow>
          oxi_range a = None \<or> oxi_range a = Some [] \<Longrightarrow>
          P (Call_ChargedDefectsStructures conv None (nmax a))"
    and p_ranged: "\<And>i prim conv xs t d. mpid a = Some i \<Longrightarrow> i \<noteq> [] \<Longrightarrow>
          get_structure_by_material_id w k i = Inr prim \<Longrightarrow>
          get_conventional_standard_structure w prim = Inr conv \<Longrightarrow>
          make_vasp_dielectric_files w prim = Inr () \<Longrightarrow>
          oxi_range a = Some xs \<Longrightarrow> xs \<noteq> [] \<Longrightarrow>
          oxi_range_loop w xs Map.empty = (t, Inr d) \<Longrightarrow>
          P (Call_ChargedDefectsStructures conv (Some d) (nmax a))"
    and p_defects: "\<And>i prim conv arg c. mpid a = Some i \<Longrightarrow> i \<noteq> [] \<Longrightarrow>
          get_structure_by_material_id w k i = Inr prim \<Longrightarrow>
          get_conventional_standard_structure w prim = Inr conv \<Longrightarrow>
          ChargedDefectsStructures w conv arg (nmax a) = Inr c \<Longrightarrow>
          P (Call_defects c)"
    and p_formula: "\<And>i prim conv. mpid a = Some i \<Longrightarrow> i \<noteq> [] \<Longrightarrow>
          get_structure_by_material_id w k i = Inr prim \<Longrightarrow>
          get_conventional_standard_structure w prim = Inr conv \<Longrightarrow>
          P (Call_reduced_formula conv)"
    and p_write: "\<And>i prim conv arg c ds f. mpid a = Some i \<Longrightarrow> i \<noteq> [] \<Longrightarrow>
          get_structure_by_material_id w k i = Inr prim \<Longrightarrow>
          get_conventional_standard_structure w prim = Inr conv \<Longrightarrow>
          ChargedDefectsStructures w conv arg (nmax a) = Inr c \<Longrightarrow>
          defects w c = Inr ds \<Longrightarrow> reduced_formula w conv = Inr f \<Longrightarrow>
          P (Call_make_vasp_defect_files ds f)"
  shows "every_call P (generate_input_files w a)"
proof (cases "mpid a")
  case None
  then show ?thesis by (simp add: generate_input_files_def p_print)
next
  case (Some i)
  show ?thesis
  proof (cases "i = []")
    case True
    with Some show ?thesis by (simp add: generate_input_files_def p_print)
  next
    case False
    show ?thesis
      unfolding generate_input_files_def Some option.case if_not_P [OF False] fetch_branches
        k_def [symmetric]
    proof (intro every_call_andThen, goal_cases)
      case 1
      show ?case using p_client [OF Some False] by (simp add: every_call_with_MPRester)
    next
      case (2 prim)
      then show ?case using p_conv [OF Some False] by (simp add: snd_with_MPRester)
    next
      case (3 prim conv)
      then show ?case using p_dielectric [OF Some False] by (simp add: snd_with_MPRester)
    next
      case (4 prim conv u)
      then have facts: "get_structure_by_material_id w k i = Inr prim"
        "get_conventional_standard_structure w prim = Inr conv"
        "make_vasp_dielectric_files w prim = Inr ()"
        by (simp_all add: snd_with_MPRester)
      show ?case
      proof (rule every_call_make_def_structs, goal_cases)
        case (1 xs s)
        then show ?case by (rule p_int)
      next
        case 2
        then show ?case by (rule p_plain [OF Some False facts])
      next
        case (3 xs t d)
        then show ?case by (rule p_ranged [OF Some False facts])
      qed
    next
      case (5 prim conv u c)
      then have facts: "get_structure_by_material_id w k i = Inr prim"
        "get_conventional_standard_structure w prim = Inr conv"
        by (simp_all add: snd_with_MPRester)
      from make_def_structs_returns [OF 5(4)] obtain arg where
        "ChargedDefectsStructures w conv arg (nmax a) = Inr c" by blast
      from p_defects [OF Some False facts this] show ?case by simp
    next
      case (6 prim conv u c ds)
      then have facts: "get_structure_by_material_id w k i = Inr prim"
        "get_conventional_standard_structure w prim = Inr conv"
        by (simp_all add: snd_with_MPRester)
      from p_formula [OF Some False facts] show ?case by simp
    next
      case (7 prim conv u c ds f)
      then have facts: "get_structure_by_material_id w k i = Inr prim"
        "get_conventional_standard_structure w prim = Inr conv"
        by (simp_all add: snd_with_MPRester)
      from make_def_structs_returns [OF 7(4)] obtain arg where
        cds: "ChargedDefectsStructures w conv arg (nmax a) = Inr c" by blast
      from 7 have "defects w c = Inr ds" "reduced_formula w conv = Inr f" by simp_all
      from p_write [OF Some False facts cds this] show ?case by simp
    qed
  qed
qed

subsection \<open>A run of \<open>generate_input_files\<close> that returns\<close>

lemma generate_returns:
  fixes w :: "('s, 'c, 'd) world" and a :: generate_namespace
  defines "k \<equiv> client_key (mapi_key a)"
  assumes ok: "snd (generate_input_files w a) = Inr ()"
    and mpid: "mpid a = Some i" "i \<noteq> []"
  shows "\<exists>prim conv arg c ds f.
      MPRester w k = Inr () \<and>
      get_structure_by_material_id w k i = Inr prim \<and>
      get_conventional_standard_structure w prim = Inr conv \<and>
      make_vasp_dielectric_files w prim = Inr () \<and>
      (case oxi_range a of
         None \<Rightarrow> arg = None
       | Some xs \<Rightarrow>
           (if xs = [] then arg = None
            else (\<exists>t d. oxi_range_loop w xs Map.empty = (t, Inr d) \<and> arg = Some d))) \<and>
      ChargedDefectsStructures w conv arg (nmax a) = Inr c \<and>
      defects w c = Inr ds \<and>
      reduced_formula w conv = Inr f \<and>
      make_vasp_defect_files w ds f = Inr () \<and>
      fst (generate_input_files w a) =
        [Call_MPRester k, Call_get_structure_by_material_id k i, Call_MPRester_exit k,
         Call_get_conventional_standard_structure prim,
         Call_make_vasp_dielectric_files prim]
        @ map Call_int
            (case oxi_range a of
               None \<Rightarrow> []
             | Some xs \<Rightarrow> concat (map (\<lambda>(el, lo, hi). [lo, hi]) xs))
        @ [Call_ChargedDefectsStructures conv arg (nmax a), Call_defects c,
           Call_reduced_formula conv, Call_make_vasp_defect_files ds f]"
proof -
  note unfold = generate_input_files_def mpid(1) option.case if_not_P [OF mpid(2)]
    fetch_branches k_def [symmetric]
  from ok [unfolded unfold snd_andThen_Inr] obtain prim conv u c ds f where
    s1: "snd (with_MPRester w k i) = Inr prim" and
    s2: "get_conventional_standard_structure w prim = Inr conv" and
    s3: "make_vasp_dielectric_files w prim = Inr u" and
    s4: "snd (make_def_structs w conv (oxi_range a) (nmax a)) = Inr c" and
    s5: "defects w c = Inr ds" and
    s6: "reduced_formula w conv = Inr f" and
    s7: "make_vasp_defect_files w ds f = Inr ()"
    by auto
  from make_def_structs_returns [OF s4] obtain arg where
    arg: "ChargedDefectsStructures w conv arg (nmax a) = Inr c"
      "(case oxi_range a of
         None \<Rightarrow> arg = None
       | Some xs \<Rightarrow>
           (if xs = [] then arg = None
            else (\<exists>t d. oxi_range_loop w xs Map.empty = (t, Inr d) \<and> arg = Some d)))"
    and tr: "fst (make_def_structs w conv (oxi_range a) (nmax a)) =
             map Call_int
               (case oxi_range a of
                  None \<Rightarrow> []
                | Some xs \<Rightarrow> concat (map (\<lambda>(el, lo, hi). [lo, hi]) xs))
             @ [Call_ChargedDefectsStructures conv arg (nmax a)]"
    by blast
  have "fst (generate_input_files w a) =
        [Call_MPRester k, Call_get_structure_by_material_id k i, Call_MPRester_exit k,
         Call_get_conventional_standard_structure prim,
         Call_make_vasp_dielectric_files prim]
        @ map Call_int
            (case oxi_range a of
               None \<Rightarrow> []
             | Some xs \<Rightarrow> concat (map (\<lambda>(el, lo, hi). [lo, hi]) xs))
        @ [Call_ChargedDefectsStructures conv arg (nmax a), Call_defects c,
           Call_reduced_formula conv, Call_make_vasp_defect_files ds f]"
    unfolding unfold
    by (simp add: fst_andThen s1 s2 s3 s4 s5 s6 tr fst_with_MPRester [OF s1])
  with s1 s2 s3 s5 s6 s7 arg show ?thesis
    by (auto simp: snd_with_MPRester)
qed

subsection \<open>The client key and the calls on the client\<close>

lemma client_key_cases:
  "client_key x = (case x of None \<Rightarrow> None | Some key \<Rightarrow> if key = [] then None else Some key)"
  by (simp add: client_key_def split: option.splits)

lemma first_call_with_MPRester: "Call_MPRester k \<in> set (fst (with_MPRester w k i))"
  by (simp add: with_MPRester_eq split: sum.splits)

lemma generate_opens_client:
  "mpid a = Some i \<Longrightarrow> i \<noteq> [] \<Longrightarrow>
     Call_MPRester (client_key (mapi_key a)) \<in> set (fst (generate_input_files w a))"
  by (simp add: generate_input_files_def fetch_branches fst_andThen first_call_with_MPRester)

lemma output_opens_client:
  "mpid b = Some i \<Longrightarrow> i \<noteq> [] \<Longrightarrow>
     Call_MPRester (client_key (mapi_key b)) \<in> set (fst (parse_vasp_output w b))"
  by (simp add: parse_vasp_output_def fetch_branches fst_andThen first_call_with_MPRester)

subsection \<open>Every call of \<open>parse_vasp_output\<close> and of \<open>main\<close>\<close>

lemma output_every_call:
  fixes w :: "('s, 'c, 'd) world" and b :: output_namespace
  defines "k \<equiv> client_key (mapi_key b)"
  assumes p_print: "P (Call_print banner)"
    and p_client: "\<And>i. mpid b = Some i \<Longrightarrow> i \<noteq> [] \<Longrightarrow>
          P (Call_MPRester k) \<and> P (Call_get_structure_by_material_id k i) \<and>
          P (Call_MPRester_exit k)"
    and p_post: "\<And>i prim. mpid b = Some i \<Longrightarrow> i \<noteq> [] \<Longrightarrow>
          get_structure_by_material_id w k i = Inr prim \<Longrightarrow>
          P (Call_PostProcess (root_fldr b) i (mapi_key b))"
  shows "every_call P (parse_vasp_output w b)"
proof (cases "mpid b")
  case None
  then show ?thesis by (simp add: parse_vasp_output_def p_print)
next
  case (Some i)
  show ?thesis
  proof (cases "i = []")
    case True
    with Some show ?thesis by (simp add: parse_vasp_output_def p_print)
  next
    case False
    show ?thesis
      unfolding parse_vasp_output_def Some option.case if_not_P [OF False] fetch_branches
        k_def [symmetric]
    proof (intro every_call_andThen, goal_cases)
      case 1
      show ?case using p_client [OF Some False] by (simp add: every_call_with_MPRester)
    next
      case (2 prim)
      then show ?case using p_post [OF Some False] by (simp add: snd_with_MPRester)
    qed
  qed
qed

lemma main_generate_every_call:
  assumes "\<And>a. parse_generate_args w og = Inr a \<Longrightarrow> every_call P (generate_input_files w a)"
  shows "every_call P (main w (Generate_input_files og))"
  using assms by (cases "parse_generate_args w og") (simp_all add: main_def every_call_def)

lemma generate_client_calls:
  "every_call (\<lambda>ev. case ev of
       Call_MPRester k \<Rightarrow> k = client_key (mapi_key a)
     | Call_get_structure_by_material_id k i \<Rightarrow> k = client_key (mapi_key a) \<and> mpid a = Some i
     | Call_MPRester_exit k \<Rightarrow> k = client_key (mapi_key a)
     | _ \<Rightarrow> True) (generate_input_files w a)"
  by (rule generate_every_call) auto

lemma output_client_calls:
  "every_call (\<lambda>ev. case ev of
       Call_MPRester k \<Rightarrow> k = client_key (mapi_key b)
     | Call_get_structure_by_material_id k i \<Rightarrow> k = client_key (mapi_key b) \<and> mpid b = Some i
     | Call_MPRester_exit k \<Rightarrow> k = client_key (mapi_key b)
     | Call_PostProcess r i k \<Rightarrow> r = root_fldr b \<and> mpid b = Some i \<and> k = mapi_key b
     | _ \<Rightarrow> True) (parse_vasp_output w b)"
  by (rule output_every_call) auto

lemma generate_returns_enumerator:
  assumes "snd (generate_input_files w a) = Inr ()" and "mpid a = Some i" and "i \<noteq> []"
  shows "\<exists>conv arg.
      (case oxi_range a of
         None \<Rightarrow> arg = None
       | Some xs \<Rightarrow>
           (if xs = [] then arg = None
            else (\<exists>t d. oxi_range_loop w xs Map.empty = (t, Inr d) \<and> arg = Some d))) \<and>
      Call_ChargedDefectsStructures conv arg (nmax a) \<in> set (fst (generate_input_files w a))"
proof -
  from generate_returns [OF assms] obtain prim conv arg c ds f where
    arg: "(case oxi_range a of
         None \<Rightarrow> arg = None
       | Some xs \<Rightarrow>
           (if xs = [] then arg = None
            else (\<exists>t d. oxi_range_loop w xs Map.empty = (t, Inr d) \<and> arg = Some d)))"
    and tr: "fst (generate_input_files w a) =
        [Call_MPRester (client_key (mapi_key a)),
         Call_get_structure_by_material_id (client_key (mapi_key a)) i,
         Call_MPRester_exit (client_key (mapi_key a)),
         Call_get_conventional_standard_structure prim,
         Call_make_vasp_dielectric_files prim]
        @ map Call_int
            (case oxi_range a of
               None \<Rightarrow> []
             | Some xs \<Rightarrow> concat (map (\<lambda>(el, lo, hi). [lo, hi]) xs))
        @ [Call_ChargedDefectsStructures conv arg (nmax a), Call_defects c,
           Call_reduced_formula conv, Call_make_vasp_defect_files ds f]"
    by blast
  have "Call_ChargedDefectsStructures conv arg (nmax a)
      \<in> set (fst (generate_input_files w a))"
    unfolding tr by simp
  with arg show ?thesis by blast
qed

subsection \<open>Exceptions leave the handlers\<close>

lemma raising_simps [simp]: "raising (Inl e) = Some e" "raising (Inr x) = None"
  by (simp_all add: raising_def)

lemma propagates_call: "raised w ev = raising r \<Longrightarrow> propagates w (call ev r)"
  by (auto simp: propagates_def raising_def split: sum.splits)

lemma propagates_ret [simp]: "propagates w (ret x)"
  by (simp add: propagates_def ret_def)

lemma propagates_andThen:
  assumes "propagates w m" and "\<And>x. snd m = Inr x \<Longrightarrow> propagates w (f x)"
  shows "propagates w (andThen m f)"
proof (cases "snd m")
  case (Inl e)
  with assms(1) show ?thesis
    by (simp add: propagates_def fst_andThen snd_andThen)
next
  case (Inr x)
  with assms(1) assms(2) [OF Inr] show ?thesis
    by (auto simp: propagates_def fst_andThen snd_andThen list_all_iff)
qed

lemma propagates_with_MPRester: "propagates w (with_MPRester w k i)"
  by (auto simp: with_MPRester_eq propagates_def raising_def split: sum.splits)

lemma propagates_loop: "propagates w (oxi_range_loop w xs d)"
proof (induction xs arbitrary: d)
  case Nil
  show ?case by simp
next
  case (Cons x xs)
  obtain el lo hi where x: "x = (el, lo, hi)" by (cases x)
  show ?case unfolding x oxi_range_loop.simps
    by (intro propagates_andThen propagates_call Cons) simp_all
qed

lemma propagates_make_def_structs: "propagates w (make_def_structs w conv xr n)"
  unfolding make_def_structs_def
  by (auto split: option.splits intro!: propagates_andThen propagates_call propagates_loop)

lemma propagates_generate: "propagates w (generate_input_files w a)"
  unfolding generate_input_files_def fetch_branches
  by (auto split: option.splits
      intro!: propagates_andThen propagates_call propagates_with_MPRester
        propagates_make_def_structs)

lemma propagates_parse: "propagates w (parse_vasp_output w b)"
  unfolding parse_vasp_output_def fetch_branches
  by (auto split: option.splits
      intro!: propagates_andThen propagates_call propagates_with_MPRester)

lemma propagates_main: "propagates w (main w cl)"
  unfolding main_def
  by (auto split: command_line.splits sum.splits simp: propagates_generate propagates_parse)
     (simp add: propagates_def)

subsection \<open>Lower case\<close>

lemma lower_char_not_capital:
  "\<not> (65 \<le> (of_char (lower_char c) :: nat) \<and> (of_char (lower_char c) :: nat) \<le> 90)"
  by (auto simp: lower_char_def Let_def)

lemma str_lower_example [simp]: "str_lower ''MP-2534'' = ''mp-2534''"
  by code_simp

subsection \<open>The example runs\<close>

lemma decimal_int_literals [simp]:
  "decimal_int ''1'' = Inr 1" "decimal_int ''3'' = Inr 3" "decimal_int ''-3'' = Inr (- 3)"
  "decimal_int ''5'' = Inr 5" "decimal_int ''-1'' = Inr (- 1)" "decimal_int ''2'' = Inr 2"
  "decimal_int ''low'' = Inl (ValueError ''low'')"
  by code_simp+

lemmas run_defs = generate_input_files_def parse_vasp_output_def make_def_structs_def
  with_MPRester_def andThen_def call_def ret_def example_world_def offline_world_def

lemma example_generate_run:
  "generate_input_files example_world example_generate_args =
     ([Call_MPRester (Some ''secret''),
       Call_get_structure_by_material_id (Some ''secret'') ''mp-2534'',
       Call_MPRester_exit (Some ''secret''),
       Call_get_conventional_standard_structure ''primitive'',
       Call_make_vasp_dielectric_files ''primitive'',
       Call_int ''1'', Call_int ''3'', Call_int ''-3'', Call_int ''5'',
       Call_ChargedDefectsStructures ''conventional''
         (Some [''Ga'' \<mapsto> (1, 3), ''As'' \<mapsto> (- 3, 5)]) 64,
       Call_defects ''enumerator'', Call_reduced_formula ''conventional'',
       Call_make_vasp_defect_files ''defect set'' ''GaAs''], Inr ())"
  by (simp add: run_defs example_generate_args_def)

lemma plain_generate_run:
  "generate_input_files example_world plain_generate_args =
     ([Call_MPRester None,
       Call_get_structure_by_material_id None ''mp-2534'',
       Call_MPRester_exit None,
       Call_get_conventional_standard_structure ''primitive'',
       Call_make_vasp_dielectric_files ''primitive'',
       Call_ChargedDefectsStructures ''conventional'' None 128,
       Call_defects ''enumerator'', Call_reduced_formula ''conventional'',
       Call_make_vasp_defect_files ''defect set'' ''GaAs''], Inr ())"
  by (simp add: run_defs plain_generate_args_def)

lemma duplicate_element_run:
  "generate_input_files example_world duplicate_element_args =
     ([Call_MPRester None,
       Call_get_structure_by_material_id None ''mp-2534'',
       Call_MPRester_exit None,
       Call_get_conventional_standard_structure ''primitive'',
       Call_make_vasp_dielectric_files ''primitive'',
       Call_int ''-3'', Call_int ''5'', Call_int ''-1'', Call_int ''2'',
       Call_ChargedDefectsStructures ''conventional'' (Some [''As'' \<mapsto> (- 1, 2)]) 128,
       Call_defects ''enumerator'', Call_reduced_formula ''conventional'',
       Call_make_vasp_defect_files ''defect set'' ''GaAs''], Inr ())"
  by (simp add: run_defs duplicate_element_args_def)

lemma malformed_bound_run:
  "generate_input_files example_world malformed_bound_args =
     ([Call_MPRester None,
       Call_get_structure_by_material_id None ''mp-2534'',
       Call_MPRester_exit None,
       Call_get_conventional_standard_structure ''primitive'',
       Call_make_vasp_dielectric_files ''primitive'',
       Call_int ''low''], Inl (ValueError ''low''))"
  by (simp add: run_defs malformed_bound_args_def)

lemma offline_generate_run:
  "generate_input_files offline_world example_generate_args =
     ([Call_MPRester (Some ''secret''),
       Call_get_structure_by_material_id (Some ''secret'') ''mp-2534'',
       Call_MPRester_exit (Some ''secret'')], Inl (Failure ''connection refused''))"
  by (simp add: run_defs example_generate_args_def)

lemma offline_output_run:
  "parse_vasp_output offline_world example_output_args =
     ([Call_MPRester (Some ''secret''),
       Call_get_structure_by_material_id (Some ''secret'') ''mp-2534'',
       Call_MPRester_exit (Some ''secret'')], Inl (Failure ''connection refused''))"
  by (simp add: run_defs example_output_args_def)

lemma example_output_run:
  "parse_vasp_output example_world example_output_args =
     ([Call_MPRester (Some ''secret''),
       Call_get_structure_by_material_id (Some ''secret'') ''mp-2534'',
       Call_MPRester_exit (Some ''secret''),
       Call_PostProcess (Some ''runs'') ''mp-2534'' (Some ''secret'')], Inr ())"
  by (simp add: run_defs example_output_args_def)

lemma empty_key_generate_run:
  "generate_input_files example_world empty_key_generate_args =
     ([Call_MPRester None,
       Call_get_structure_by_material_id None ''mp-2534'',
       Call_MPRester_exit None,
       Call_get_conventional_standard_structure ''primitive'',
       Call_make_vasp_dielectric_files ''primitive'',
       Call_ChargedDefectsStructures ''conventional'' None 128,
       Call_defects ''enumerator'', Call_reduced_formula ''conventional'',
       Call_make_vasp_defect_files ''defect set'' ''GaAs''], Inr ())"
  by (simp add: run_defs empty_key_generate_args_def)

lemma empty_key_output_run:
  "parse_vasp_output example_world empty_key_output_args =
     ([Call_MPRester None,
       Call_get_structure_by_material_id None ''mp-2534'',
       Call_MPRester_exit None,
       Call_PostProcess (Some ''runs'') ''mp-2534'' (Some [])], Inr ())"
  by (simp add: run_defs empty_key_output_args_def)

lemma default_nmax_parse:
  "parse_generate_args example_world default_nmax_options =
     Inr \<lparr> mpid = Some ''mp-2534'', mapi_key = None, nmax = 128, oxi_range = None \<rparr>"
  by (simp add: parse_generate_args_def default_nmax_options_def)

lemma default_nmax_main_run:
  "main example_world (Generate_input_files default_nmax_options) =
     ([Call_MPRester None,
       Call_get_structure_by_material_id None ''mp-2534'',
       Call_MPRester_exit None,
       Call_get_conventional_standard_structure ''primitive'',
       Call_make_vasp_dielectric_files ''primitive'',
       Call_ChargedDefectsStructures ''conventional'' None 128,
       Call_defects ''enumerator'', Call_reduced_formula ''conventional'',
       Call_make_vasp_defect_files ''defect set'' ''GaAs''], Inr ())"
  by (simp add: main_def default_nmax_parse) (simp add: run_defs)

lemma uppercase_output_main_run:
  "main example_world (Parse_vasp_output uppercase_output_options) =
     ([Call_MPRester None,
       Call_get_structure_by_material_id None ''mp-2534'',
       Call_MPRester_exit None,
       Call_PostProcess (Some ''runs'') ''mp-2534'' None], Inr ())"
  by (simp add: main_def parse_output_args_def uppercase_output_options_def run_defs)


subsection \<open>The missing identifier\<close>

text \<open>
  C1. When \<^verbatim>\<open>--mpid\<close> is missing or empty, each handler makes exactly one call, the
  \<^verbatim>\<open>print\<close> of the text \<^verbatim>\<open>============\<close>, a line feed, \<^verbatim>\<open>ERROR: Provide an mpid\<close>, a
  line feed, \<^verbatim>\<open>============\<close>, and returns normally: no client is opened, nothing is
  fetched, no file writer is called. The same holds of \<^verbatim>\<open>main\<close> for either subcommand
  once the options are parsed, and a normal return of \<^verbatim>\<open>main\<close> leaves the exit
  status at zero.
\<close>

theorem missing_mpid_prints_banner:
  assumes "mpid a = None \<or> mpid a = Some []"
      and "mpid b = None \<or> mpid b = Some []"
  shows
    "generate_input_files w a =
       ([Call_print (''============'' @ CHR 0x0A # ''ERROR: Provide an mpid'' @ CHR 0x0A # ''============'')],
        Inr ()) \<and>
     parse_vasp_output w b =
       ([Call_print (''============'' @ CHR 0x0A # ''ERROR: Provide an mpid'' @ CHR 0x0A # ''============'')],
        Inr ()) \<and>
     ((opt_mpid og = None \<or> opt_mpid og = Some []) \<and>
      (\<exists>a'. parse_generate_args w og = Inr a') \<longrightarrow>
        main w (Generate_input_files og) =
          ([Call_print (''============'' @ CHR 0x0A # ''ERROR: Provide an mpid'' @ CHR 0x0A # ''============'')],
           Inr ())) \<and>
     ((opt_mpid ob = None \<or> opt_mpid ob = Some []) \<longrightarrow>
        main w (Parse_vasp_output ob) =
          ([Call_print (''============'' @ CHR 0x0A # ''ERROR: Provide an mpid'' @ CHR 0x0A # ''============'')],
           Inr ()))"
proof -
  have literal: "banner = ''============'' @ CHR 0x0A # ''ERROR: Provide an mpid'' @ CHR 0x0A # ''============''"
    by (simp add: banner_def)
  have handlers: "generate_input_files w a = ([Call_print banner], Inr ())"
    "parse_vasp_output w b = ([Call_print banner], Inr ())"
    using assms by (auto simp: generate_input_files_def parse_vasp_output_def call_def)
  have generate_cmd: "main w (Generate_input_files og) = ([Call_print banner], Inr ())"
    if "(opt_mpid og = None \<or> opt_mpid og = Some []) \<and>
      (\<exists>a'. parse_generate_args w og = Inr a')"
  proof -
    from that obtain a' where parsed: "parse_generate_args w og = Inr a'" by blast
    from parse_generate_args_fields [OF parsed] that
    have "mpid a' = None \<or> mpid a' = Some []" by (auto simp: str_lower_def)
    with parsed show ?thesis
      by (auto simp: main_def generate_input_files_def call_def)
  qed
  have parse_cmd: "main w (Parse_vasp_output ob) = ([Call_print banner], Inr ())"
    if "opt_mpid ob = None \<or> opt_mpid ob = Some []"
  proof -
    from that
    have "mpid (parse_output_args ob) = None \<or> mpid (parse_output_args ob) = Some []"
      by (auto simp: parse_output_args_def str_lower_def)
    then show ?thesis
      by (auto simp: main_def parse_vasp_output_def call_def)
  qed
  from handlers generate_cmd parse_cmd show ?thesis
    unfolding literal by blast
qed

text \<open>
  No \<^verbatim>\<open>--mpid\<close> for \<^verbatim>\<open>generate_input_files\<close>, an empty one for \<^verbatim>\<open>parse_vasp_output\<close>.
\<close>

theorem missing_mpid_prints_banner_witness:
  "generate_input_files example_world missing_mpid_generate_args =
     ([Call_print (''============'' @ CHR 0x0A # ''ERROR: Provide an mpid'' @ CHR 0x0A # ''============'')],
      Inr ()) \<and>
   parse_vasp_output example_world empty_mpid_output_args =
     ([Call_print (''============'' @ CHR 0x0A # ''ERROR: Provide an mpid'' @ CHR 0x0A # ''============'')],
      Inr ()) \<and>
   main example_world (Generate_input_files missing_mpid_generate_options) =
     ([Call_print (''============'' @ CHR 0x0A # ''ERROR: Provide an mpid'' @ CHR 0x0A # ''============'')],
      Inr ()) \<and>
   main example_world (Parse_vasp_output empty_mpid_output_options) =
     ([Call_print (''============'' @ CHR 0x0A # ''ERROR: Provide an mpid'' @ CHR 0x0A # ''============'')],
      Inr ())"
proof -
  have a: "mpid missing_mpid_generate_args = None \<or> mpid missing_mpid_generate_args = Some []"
    by (simp add: missing_mpid_generate_args_def)
  have b: "mpid empty_mpid_output_args = None \<or> mpid empty_mpid_output_args = Some []"
    by (simp add: empty_mpid_output_args_def)
  have og: "(opt_mpid missing_mpid_generate_options = None \<or>
       opt_mpid missing_mpid_generate_options = Some []) \<and>
      (\<exists>a'. parse_generate_args example_world missing_mpid_generate_options = Inr a')"
    by (simp add: parse_generate_args_def missing_mpid_generate_options_def example_world_def)
  have ob: "opt_mpid empty_mpid_output_options = None \<or>
      opt_mpid empty_mpid_output_options = Some []"
    by (simp add: empty_mpid_output_options_def)
  from missing_mpid_prints_banner
    [OF a b, of example_world missing_mpid_generate_options empty_mpid_output_options]
    og ob
  show ?thesis by blast
qed

subsection \<open>The oxidation ranges\<close>

text \<open>
  C2, as amended. When \<^verbatim>\<open>--oxi_range\<close> was given at least once, every call of the
  enumerator \<^verbatim>\<open>ChargedDefectsStructures\<close> has a dictionary as its second argument; the
  keys of the dictionary are exactly the element names given; and each triple
  \<open>(El, low, high)\<close> that is not followed by a later triple for the same element has the
  entry from \<open>El\<close> to \<open>(int(low), int(high))\<close>. A later triple for an element replaces
  the entry of an earlier one. A run that returns has called the enumerator with a
  dictionary.
\<close>

theorem oxi_range_mapping_passed:
  assumes "oxi_range a = Some xs" and "xs \<noteq> []"
  shows
    "(\<forall>s arg n. Call_ChargedDefectsStructures s arg n \<in> set (fst (generate_input_files w a))
        \<longrightarrow> (\<exists>d. arg = Some d \<and> dom d = fst ` set xs \<and>
               (\<forall>ys el lo hi zs. xs = ys @ (el, lo, hi) # zs \<and> el \<notin> fst ` set zs \<longrightarrow>
                  (\<exists>l h. py_int w lo = Inr l \<and> py_int w hi = Inr h \<and>
                     d el = Some (l, h))))) \<and>
     (\<forall>i. mpid a = Some i \<and> i \<noteq> [] \<and> snd (generate_input_files w a) = Inr () \<longrightarrow>
        (\<exists>conv d. Call_ChargedDefectsStructures conv (Some d) (nmax a)
           \<in> set (fst (generate_input_files w a))))"
proof -
  let ?Q = "\<lambda>arg. \<exists>d. arg = Some d \<and> dom d = fst ` set xs \<and>
           (\<forall>ys el lo hi zs. xs = ys @ (el, lo, hi) # zs \<and> el \<notin> fst ` set zs \<longrightarrow>
              (\<exists>l h. py_int w lo = Inr l \<and> py_int w hi = Inr h \<and> d el = Some (l, h)))"
  let ?P = "\<lambda>ev. case ev of Call_ChargedDefectsStructures s arg n \<Rightarrow> ?Q arg | _ \<Rightarrow> True"
  have all: "every_call ?P (generate_input_files w a)"
  proof (rule generate_every_call, goal_cases)
    case (6 i prim conv)
    with assms show ?case by auto
  next
    case (7 i prim conv xs' t d)
    with assms have loop: "oxi_range_loop w xs Map.empty = (t, Inr d)" by simp
    from loop_dom [OF loop] loop show ?case
      by (auto dest: loop_last)
  qed simp_all
  have safe: "?Q arg"
    if "Call_ChargedDefectsStructures s arg n \<in> set (fst (generate_input_files w a))"
    for s arg n
    using every_callD [OF all that] by simp
  have live: "\<exists>conv d. Call_ChargedDefectsStructures conv (Some d) (nmax a)
           \<in> set (fst (generate_input_files w a))"
    if "mpid a = Some i \<and> i \<noteq> [] \<and> snd (generate_input_files w a) = Inr ()" for i
  proof -
    from that have "snd (generate_input_files w a) = Inr ()" "mpid a = Some i" "i \<noteq> []"
      by simp_all
    from generate_returns_enumerator [OF this] assms show ?thesis by auto
  qed
  from safe live show ?thesis by blast
qed

text \<open>
  The example run: two elements, each given once; the dictionary passed has both entries.
\<close>

theorem oxi_range_mapping_passed_witness:
  "snd (generate_input_files example_world example_generate_args) = Inr () \<and>
   Call_ChargedDefectsStructures ''conventional''
      (Some [''Ga'' \<mapsto> (1, 3), ''As'' \<mapsto> (- 3, 5)]) 64
     \<in> set (fst (generate_input_files example_world example_generate_args)) \<and>
   (\<exists>d. Some [''Ga'' \<mapsto> (1, 3), ''As'' \<mapsto> (- 3, 5)] = Some d \<and>
      dom d = fst ` set [(''Ga'', ''1'', ''3''), (''As'', ''-3'', ''5'')] \<and>
      (\<forall>ys el lo hi zs.
          [(''Ga'', ''1'', ''3''), (''As'', ''-3'', ''5'')] = ys @ (el, lo, hi) # zs \<and>
          el \<notin> fst ` set zs \<longrightarrow>
          (\<exists>l h. py_int example_world lo = Inr l \<and> py_int example_world hi = Inr h \<and>
             d el = Some (l, h))))"
proof -
  have ret: "snd (generate_input_files example_world example_generate_args) = Inr ()"
    by (simp add: example_generate_run)
  have mem: "Call_ChargedDefectsStructures ''conventional''
      (Some [''Ga'' \<mapsto> (1, 3), ''As'' \<mapsto> (- 3, 5)]) 64
     \<in> set (fst (generate_input_files example_world example_generate_args))"
    by (simp add: example_generate_run)
  have range: "oxi_range example_generate_args
      = Some [(''Ga'', ''1'', ''3''), (''As'', ''-3'', ''5'')]"
    by (simp add: example_generate_args_def)
  have ne: "[(''Ga'', ''1'', ''3''), (''As'', ''-3'', ''5'')] \<noteq> []" by simp
  from oxi_range_mapping_passed [OF range ne, of example_world] ret mem
  show ?thesis by blast
qed

text \<open>
  C2 as stated fails when an element is given twice: with \<^verbatim>\<open>--oxi_range As -3 5\<close>
  followed by \<^verbatim>\<open>--oxi_range As -1 2\<close> the dictionary passed to the enumerator maps
  \<open>As\<close> to \<open>(-1, 2)\<close>, and the first triple has no entry \<open>(-3, 5)\<close> in it.
\<close>

theorem oxi_range_duplicate_element_counterexample:
  "oxi_range duplicate_element_args = Some [(''As'', ''-3'', ''5''), (''As'', ''-1'', ''2'')] \<and>
   py_int example_world ''-3'' = Inr (- 3) \<and> py_int example_world ''5'' = Inr 5 \<and>
   fst (generate_input_files example_world duplicate_element_args) =
     [Call_MPRester None,
      Call_get_structure_by_material_id None ''mp-2534'',
      Call_MPRester_exit None,
      Call_get_conventional_standard_structure ''primitive'',
      Call_make_vasp_dielectric_files ''primitive'',
      Call_int ''-3'', Call_int ''5'', Call_int ''-1'', Call_int ''2'',
      Call_ChargedDefectsStructures ''conventional'' (Some [''As'' \<mapsto> (- 1, 2)]) 128,
      Call_defects ''enumerator'', Call_reduced_formula ''conventional'',
      Call_make_vasp_defect_files ''defect set'' ''GaAs''] \<and>
   [''As'' \<mapsto> (- 1, 2 :: int)] ''As'' \<noteq> Some (- 3, 5 :: int)"
  by (simp add: duplicate_element_run) (simp add: duplicate_element_args_def example_world_def)

subsection \<open>The conventional cell\<close>

text \<open>
  C3. With a non-empty \<^verbatim>\<open>mpid\<close>: whenever the enumerator is called, its structure is
  the conventional standard cell of the structure fetched from the database; whenever the
  defect files are written, they are written with the \<^verbatim>\<open>defects\<close> of the enumerator's
  result on that conventional cell and with the reduced formula of that conventional cell;
  and a run that returns made exactly these calls, in this order: the client is opened,
  the structure fetched, the client closed, the structure converted, the dielectric files
  written, the bounds converted, the enumerator called, the defect files written.
\<close>

theorem generate_input_files_uses_conventional_cell:
  assumes "mpid a = Some i" and "i \<noteq> []"
  shows
    "(\<forall>s arg n. Call_ChargedDefectsStructures s arg n \<in> set (fst (generate_input_files w a))
        \<longrightarrow> (\<exists>prim. get_structure_by_material_id w (client_key (mapi_key a)) i = Inr prim \<and>
               get_conventional_standard_structure w prim = Inr s)) \<and>
     (\<forall>ds f. Call_make_vasp_defect_files ds f \<in> set (fst (generate_input_files w a))
        \<longrightarrow> (\<exists>prim conv arg c.
               get_structure_by_material_id w (client_key (mapi_key a)) i = Inr prim \<and>
               get_conventional_standard_structure w prim = Inr conv \<and>
               ChargedDefectsStructures w conv arg (nmax a) = Inr c \<and>
               defects w c = Inr ds \<and> reduced_formula w conv = Inr f)) \<and>
     (snd (generate_input_files w a) = Inr () \<longrightarrow>
        (\<exists>prim conv ints arg c ds f.
           get_structure_by_material_id w (client_key (mapi_key a)) i = Inr prim \<and>
           get_conventional_standard_structure w prim = Inr conv \<and>
           ChargedDefectsStructures w conv arg (nmax a) = Inr c \<and>
           defects w c = Inr ds \<and> reduced_formula w conv = Inr f \<and>
           fst (generate_input_files w a) =
             [Call_MPRester (client_key (mapi_key a)),
              Call_get_structure_by_material_id (client_key (mapi_key a)) i,
              Call_MPRester_exit (client_key (mapi_key a)),
              Call_get_conventional_standard_structure prim,
              Call_make_vasp_dielectric_files prim]
             @ map Call_int ints
             @ [Call_ChargedDefectsStructures conv arg (nmax a), Call_defects c,
                Call_reduced_formula conv, Call_make_vasp_defect_files ds f]))"
proof (intro conjI allI impI)
  let ?k = "client_key (mapi_key a)"
  let ?P = "\<lambda>ev. case ev of
      Call_ChargedDefectsStructures s arg n \<Rightarrow>
        (\<exists>prim. get_structure_by_material_id w ?k i = Inr prim \<and>
               get_conventional_standard_structure w prim = Inr s)
    | Call_make_vasp_defect_files ds f \<Rightarrow>
        (\<exists>prim conv arg c.
               get_structure_by_material_id w ?k i = Inr prim \<and>
               get_conventional_standard_structure w prim = Inr conv \<and>
               ChargedDefectsStructures w conv arg (nmax a) = Inr c \<and>
               defects w c = Inr ds \<and> reduced_formula w conv = Inr f)
    | _ \<Rightarrow> True"
  have all: "every_call ?P (generate_input_files w a)"
    using assms by (rule_tac generate_every_call) auto
  {
    fix s arg n
    assume "Call_ChargedDefectsStructures s arg n \<in> set (fst (generate_input_files w a))"
    from every_callD [OF all this]
    show "\<exists>prim. get_structure_by_material_id w ?k i = Inr prim \<and>
               get_conventional_standard_structure w prim = Inr s" by simp
  next
    fix ds f
    assume "Call_make_vasp_defect_files ds f \<in> set (fst (generate_input_files w a))"
    from every_callD [OF all this]
    show "\<exists>prim conv arg c.
               get_structure_by_material_id w ?k i = Inr prim \<and>
               get_conventional_standard_structure w prim = Inr conv \<and>
               ChargedDefectsStructures w conv arg (nmax a) = Inr c \<and>
               defects w c = Inr ds \<and> reduced_formula w conv = Inr f" by simp
  next
    assume "snd (generate_input_files w a) = Inr ()"
    from generate_returns [OF this assms]
    show "\<exists>prim conv ints arg c ds f.
           get_structure_by_material_id w ?k i = Inr prim \<and>
           get_conventional_standard_structure w prim = Inr conv \<and>
           ChargedDefectsStructures w conv arg (nmax a) = Inr c \<and>
           defects w c = Inr ds \<and> reduced_formula w conv = Inr f \<and>
           fst (generate_input_files w a) =
             [Call_MPRester ?k,
              Call_get_structure_by_material_id ?k i,
              Call_MPRester_exit ?k,
              Call_get_conventional_standard_structure prim,
              Call_make_vasp_dielectric_files prim]
             @ map Call_int ints
             @ [Call_ChargedDefectsStructures conv arg (nmax a), Call_defects c,
                Call_reduced_formula conv, Call_make_vasp_defect_files ds f]"
      by blast
  }
qed

text \<open>
  The example run returns, and its calls have this form.
\<close>

theorem generate_input_files_uses_conventional_cell_witness:
  "snd (generate_input_files example_world example_generate_args) = Inr () \<and>
   (\<exists>prim conv ints arg c ds f.
      get_structure_by_material_id example_world
        (client_key (mapi_key example_generate_args)) ''mp-2534'' = Inr prim \<and>
      get_conventional_standard_structure example_world prim = Inr conv \<and>
      ChargedDefectsStructures example_world conv arg (nmax example_generate_args) = Inr c \<and>
      defects example_world c = Inr ds \<and> reduced_formula example_world conv = Inr f \<and>
      fst (generate_input_files example_world example_generate_args) =
        [Call_MPRester (client_key (mapi_key example_generate_args)),
         Call_get_structure_by_material_id (client_key (mapi_key example_generate_args))
           ''mp-2534'',
         Call_MPRester_exit (client_key (mapi_key example_generate_args)),
         Call_get_conventional_standard_structure prim,
         Call_make_vasp_dielectric_files prim]
        @ map Call_int ints
        @ [Call_ChargedDefectsStructures conv arg (nmax example_generate_args),
           Call_defects c, Call_reduced_formula conv, Call_make_vasp_defect_files ds f])"
proof -
  have m: "mpid example_generate_args = Some ''mp-2534''"
    by (simp add: example_generate_args_def)
  have ne: "''mp-2534'' \<noteq> []" by simp
  have r: "snd (generate_input_files example_world example_generate_args) = Inr ()"
    by (simp add: example_generate_run)
  from generate_input_files_uses_conventional_cell [OF m ne, of example_world] r
  show ?thesis by blast
qed

subsection \<open>No oxidation range\<close>

text \<open>
  C4. When \<^verbatim>\<open>--oxi_range\<close> is omitted (\<^verbatim>\<open>None\<close>), every call of the enumerator has
  no dictionary argument: it is called with the conventional cell and \<^verbatim>\<open>cellmax\<close>
  only. No bound is converted, and a run that returns has made such a call.
\<close>

theorem no_oxi_range_no_mapping:
  assumes "oxi_range a = None"
  shows
    "(\<forall>s arg n. Call_ChargedDefectsStructures s arg n \<in> set (fst (generate_input_files w a))
        \<longrightarrow> arg = None \<and> n = nmax a \<and>
            (\<exists>i prim. mpid a = Some i \<and>
               get_structure_by_material_id w (client_key (mapi_key a)) i = Inr prim \<and>
               get_conventional_standard_structure w prim = Inr s)) \<and>
     (\<forall>x. Call_int x \<notin> set (fst (generate_input_files w a))) \<and>
     (\<forall>i. mpid a = Some i \<and> i \<noteq> [] \<and> snd (generate_input_files w a) = Inr () \<longrightarrow>
        (\<exists>conv. Call_ChargedDefectsStructures conv None (nmax a)
           \<in> set (fst (generate_input_files w a))))"
proof -
  let ?P = "\<lambda>ev. case ev of
      Call_ChargedDefectsStructures s arg n \<Rightarrow>
        arg = None \<and> n = nmax a \<and>
            (\<exists>i prim. mpid a = Some i \<and>
               get_structure_by_material_id w (client_key (mapi_key a)) i = Inr prim \<and>
               get_conventional_standard_structure w prim = Inr s)
    | Call_int x \<Rightarrow> False
    | _ \<Rightarrow> True"
  have all: "every_call ?P (generate_input_files w a)"
    using assms by (rule_tac generate_every_call) auto
  have safe: "arg = None \<and> n = nmax a \<and>
            (\<exists>i prim. mpid a = Some i \<and>
               get_structure_by_material_id w (client_key (mapi_key a)) i = Inr prim \<and>
               get_conventional_standard_structure w prim = Inr s)"
    if "Call_ChargedDefectsStructures s arg n \<in> set (fst (generate_input_files w a))"
    for s arg n
    using every_callD [OF all that] by simp
  have no_int: "Call_int x \<notin> set (fst (generate_input_files w a))" for x
    using every_callD [OF all, of "Call_int x"] by auto
  have live: "\<exists>conv. Call_ChargedDefectsStructures conv None (nmax a)
           \<in> set (fst (generate_input_files w a))"
    if "mpid a = Some i \<and> i \<noteq> [] \<and> snd (generate_input_files w a) = Inr ()" for i
  proof -
    from that have "snd (generate_input_files w a) = Inr ()" "mpid a = Some i" "i \<noteq> []"
      by simp_all
    from generate_returns_enumerator [OF this] assms show ?thesis by auto
  qed
  from safe no_int live show ?thesis by blast
qed

text \<open>
  A run without \<^verbatim>\<open>--oxi_range\<close> that returns.
\<close>

theorem no_oxi_range_no_mapping_witness:
  "oxi_range plain_generate_args = None \<and>
   snd (generate_input_files example_world plain_generate_args) = Inr () \<and>
   (\<exists>conv. Call_ChargedDefectsStructures conv None (nmax plain_generate_args)
      \<in> set (fst (generate_input_files example_world plain_generate_args))) \<and>
   Call_ChargedDefectsStructures ''conventional'' None 128
      \<in> set (fst (generate_input_files example_world plain_generate_args))"
proof -
  have o: "oxi_range plain_generate_args = None"
    and m: "mpid plain_generate_args = Some ''mp-2534'' \<and> ''mp-2534'' \<noteq> [] \<and>
      snd (generate_input_files example_world plain_generate_args) = Inr ()"
    by (simp_all add: plain_generate_run) (simp_all add: plain_generate_args_def)
  have mem: "Call_ChargedDefectsStructures ''conventional'' None 128
      \<in> set (fst (generate_input_files example_world plain_generate_args))"
    by (simp add: plain_generate_run)
  from no_oxi_range_no_mapping [OF o, of example_world] m o mem show ?thesis by blast
qed

subsection \<open>The atom-count cap\<close>

text \<open>
  C5. \<^verbatim>\<open>--nmax\<close> is 128 when omitted, and every call of the enumerator, with or without
  a dictionary, has the value of \<^verbatim>\<open>nmax\<close> as its \<^verbatim>\<open>cellmax\<close>: for the handler, the
  \<^verbatim>\<open>nmax\<close> of its arguments; for \<^verbatim>\<open>main\<close>, 128 when the option is omitted and the
  integer that \<^verbatim>\<open>int\<close> reads from the option otherwise. A run that returns has made
  such a call.
\<close>

theorem nmax_default_and_forwarded:
  "(opt_nmax og = None \<longrightarrow> (\<exists>a'. parse_generate_args w og = Inr a' \<and> nmax a' = 128)) \<and>
   (\<forall>s arg n. Call_ChargedDefectsStructures s arg n \<in> set (fst (generate_input_files w a))
      \<longrightarrow> n = nmax a) \<and>
   (\<forall>i. mpid a = Some i \<and> i \<noteq> [] \<and> snd (generate_input_files w a) = Inr () \<longrightarrow>
      (\<exists>s arg. Call_ChargedDefectsStructures s arg (nmax a)
         \<in> set (fst (generate_input_files w a)))) \<and>
   (\<forall>s arg n. Call_ChargedDefectsStructures s arg n
        \<in> set (fst (main w (Generate_input_files og)))
      \<longrightarrow> (case opt_nmax og of None \<Rightarrow> n = 128 | Some str \<Rightarrow> py_int w str = Inr n))"
proof -
  have dflt: "\<exists>a'. parse_generate_args w og = Inr a' \<and> nmax a' = 128"
    if "opt_nmax og = None"
    using that by (simp add: parse_generate_args_def)
  have all: "every_call
      (\<lambda>ev. case ev of Call_ChargedDefectsStructures s arg n \<Rightarrow> n = nmax a' | _ \<Rightarrow> True)
      (generate_input_files w a')" for a'
    by (rule generate_every_call) auto
  have fwd: "n = nmax a"
    if "Call_ChargedDefectsStructures s arg n \<in> set (fst (generate_input_files w a))"
    for s arg n
    using every_callD [OF all that] by simp
  have live: "\<exists>s arg. Call_ChargedDefectsStructures s arg (nmax a)
         \<in> set (fst (generate_input_files w a))"
    if "mpid a = Some i \<and> i \<noteq> [] \<and> snd (generate_input_files w a) = Inr ()" for i
  proof -
    from that have "snd (generate_input_files w a) = Inr ()" "mpid a = Some i" "i \<noteq> []"
      by simp_all
    from generate_returns_enumerator [OF this] show ?thesis by blast
  qed
  have cmd: "case opt_nmax og of None \<Rightarrow> n = 128 | Some str \<Rightarrow> py_int w str = Inr n"
    if mem: "Call_ChargedDefectsStructures s arg n
        \<in> set (fst (main w (Generate_input_files og)))" for s arg n
  proof (cases "parse_generate_args w og")
    case (Inl e)
    with mem show ?thesis by (simp add: main_def)
  next
    case (Inr a')
    with mem have "Call_ChargedDefectsStructures s arg n
        \<in> set (fst (generate_input_files w a'))"
      by (simp add: main_def)
    from every_callD [OF all this] have "n = nmax a'" by simp
    with parse_generate_args_fields [OF Inr] show ?thesis
      by (simp split: option.splits)
  qed
  from dflt fwd live cmd show ?thesis by blast
qed

text \<open>
  The example run has a dictionary and passes 64; the run of \<^verbatim>\<open>main\<close> without
  \<^verbatim>\<open>--nmax\<close> and without \<^verbatim>\<open>--oxi_range\<close> passes 128.
\<close>

theorem nmax_default_and_forwarded_witness:
  "opt_nmax default_nmax_options = None \<and>
   (\<exists>a'. parse_generate_args example_world default_nmax_options = Inr a' \<and> nmax a' = 128) \<and>
   Call_ChargedDefectsStructures ''conventional''
       (Some [''Ga'' \<mapsto> (1, 3), ''As'' \<mapsto> (- 3, 5)]) 64
     \<in> set (fst (generate_input_files example_world example_generate_args)) \<and>
   64 = nmax example_generate_args \<and>
   Call_ChargedDefectsStructures ''conventional'' None 128
     \<in> set (fst (main example_world (Generate_input_files default_nmax_options)))"
proof -
  have o: "opt_nmax default_nmax_options = None"
    by (simp add: default_nmax_options_def)
  have m1: "Call_ChargedDefectsStructures ''conventional''
       (Some [''Ga'' \<mapsto> (1, 3), ''As'' \<mapsto> (- 3, 5)]) 64
     \<in> set (fst (generate_input_files example_world example_generate_args))"
    by (simp add: example_generate_run)
  have m2: "Call_ChargedDefectsStructures ''conventional'' None 128
     \<in> set (fst (main example_world (Generate_input_files default_nmax_options)))"
    by (simp add: default_nmax_main_run)
  from nmax_default_and_forwarded [of default_nmax_options example_world example_generate_args]
    o m1 m2
  show ?thesis by blast
qed

subsection \<open>The API key\<close>

text \<open>
  C6, as amended. With a non-empty \<^verbatim>\<open>mpid\<close>, either handler constructs the client
  exactly with the key given when \<^verbatim>\<open>--mapi_key\<close> is a non-empty string, and with no
  argument when the option is omitted or is the empty string; the fetch goes through that
  client.
\<close>

theorem mapi_key_selects_client:
  assumes "mpid a = Some i" and "i \<noteq> []" and "mpid b = Some j" and "j \<noteq> []"
  shows
    "(\<forall>k. Call_MPRester k \<in> set (fst (generate_input_files w a)) \<longleftrightarrow>
        k = (case mapi_key a of None \<Rightarrow> None
             | Some key \<Rightarrow> if key = [] then None else Some key)) \<and>
     (\<forall>k i'. Call_get_structure_by_material_id k i' \<in> set (fst (generate_input_files w a)) \<longrightarrow>
        k = (case mapi_key a of None \<Rightarrow> None
             | Some key \<Rightarrow> if key = [] then None else Some key)) \<and>
     (\<forall>k. Call_MPRester k \<in> set (fst (parse_vasp_output w b)) \<longleftrightarrow>
        k = (case mapi_key b of None \<Rightarrow> None
             | Some key \<Rightarrow> if key = [] then None else Some key)) \<and>
     (\<forall>k j'. Call_get_structure_by_material_id k j' \<in> set (fst (parse_vasp_output w b)) \<longrightarrow>
        k = (case mapi_key b of None \<Rightarrow> None
             | Some key \<Rightarrow> if key = [] then None else Some key))"
proof -
  have g: "Call_MPRester k \<in> set (fst (generate_input_files w a)) \<Longrightarrow>
      k = client_key (mapi_key a)" for k
    using every_callD [OF generate_client_calls [of a w], of "Call_MPRester k"] by simp
  have g': "Call_get_structure_by_material_id k i' \<in> set (fst (generate_input_files w a)) \<Longrightarrow>
      k = client_key (mapi_key a)" for k i'
    using every_callD [OF generate_client_calls [of a w],
        of "Call_get_structure_by_material_id k i'"] by simp
  have p: "Call_MPRester k \<in> set (fst (parse_vasp_output w b)) \<Longrightarrow>
      k = client_key (mapi_key b)" for k
    using every_callD [OF output_client_calls [of b w], of "Call_MPRester k"] by simp
  have p': "Call_get_structure_by_material_id k j' \<in> set (fst (parse_vasp_output w b)) \<Longrightarrow>
      k = client_key (mapi_key b)" for k j'
    using every_callD [OF output_client_calls [of b w],
        of "Call_get_structure_by_material_id k j'"] by simp
  from g g' p p' generate_opens_client [OF assms(1,2), of w]
    output_opens_client [OF assms(3,4), of w]
  show ?thesis
    unfolding client_key_cases by blast
qed

text \<open>
  A key given to \<^verbatim>\<open>generate_input_files\<close>, an empty key given to \<^verbatim>\<open>parse_vasp_output\<close>.
\<close>

theorem mapi_key_selects_client_witness:
  "(Call_MPRester (Some ''secret'')
      \<in> set (fst (generate_input_files example_world example_generate_args))) \<and>
   (Call_MPRester None
      \<notin> set (fst (generate_input_files example_world example_generate_args))) \<and>
   (Call_MPRester None \<in> set (fst (parse_vasp_output example_world empty_key_output_args)))"
proof -
  note th = mapi_key_selects_client
    [of example_generate_args "''mp-2534''" empty_key_output_args "''mp-2534''" example_world]
  have "mpid example_generate_args = Some ''mp-2534''"
    "mpid empty_key_output_args = Some ''mp-2534''" "''mp-2534'' \<noteq> []"
    "mapi_key example_generate_args = Some ''secret''"
    "mapi_key empty_key_output_args = Some []"
    by (simp_all add: example_generate_args_def empty_key_output_args_def)
  with th show ?thesis by simp
qed

text \<open>
  C6 as stated fails for \<^verbatim>\<open>--mapi_key ""\<close>: the key is supplied, and both handlers
  construct the client with no argument (\<^verbatim>\<open>parse_vasp_output\<close> still hands the empty
  key to \<^verbatim>\<open>PostProcess\<close>).
\<close>

theorem empty_mapi_key_counterexample:
  "mapi_key empty_key_generate_args = Some [] \<and>
   fst (generate_input_files example_world empty_key_generate_args) =
     [Call_MPRester None,
      Call_get_structure_by_material_id None ''mp-2534'',
      Call_MPRester_exit None,
      Call_get_conventional_standard_structure ''primitive'',
      Call_make_vasp_dielectric_files ''primitive'',
      Call_ChargedDefectsStructures ''conventional'' None 128,
      Call_defects ''enumerator'', Call_reduced_formula ''conventional'',
      Call_make_vasp_defect_files ''defect set'' ''GaAs''] \<and>
   mapi_key empty_key_output_args = Some [] \<and>
   fst (parse_vasp_output example_world empty_key_output_args) =
     [Call_MPRester None,
      Call_get_structure_by_material_id None ''mp-2534'',
      Call_MPRester_exit None,
      Call_PostProcess (Some ''runs'') ''mp-2534'' (Some [])]"
  by (simp add: empty_key_generate_run empty_key_output_run)
     (simp add: empty_key_generate_args_def empty_key_output_args_def)

subsection \<open>Failures\<close>

text \<open>
  C7. Neither handler, nor \<^verbatim>\<open>main\<close>, catches anything: whatever a call made during a
  run raised (the client, the fetch, the conversion to the conventional cell, a file
  writer, \<^verbatim>\<open>int\<close> on a bound, the enumerator, an attribute read, the post-processor)
  is the outcome of the run.
\<close>

theorem failures_propagate:
  "(\<forall>ev \<in> set (fst (generate_input_files w a)). \<forall>e.
      raised w ev = Some e \<longrightarrow> snd (generate_input_files w a) = Inl e) \<and>
   (\<forall>ev \<in> set (fst (parse_vasp_output w b)). \<forall>e.
      raised w ev = Some e \<longrightarrow> snd (parse_vasp_output w b) = Inl e) \<and>
   (\<forall>ev \<in> set (fst (main w cl)). \<forall>e.
      raised w ev = Some e \<longrightarrow> snd (main w cl) = Inl e)"
  using propagates_generate [of w a] propagates_parse [of w b] propagates_main [of w cl]
  by (simp add: propagates_def list_all_iff)

text \<open>
  Two failing runs: the database cannot be reached, in either handler and through
  \<^verbatim>\<open>main\<close>; a bound is not a number.
\<close>

theorem failures_propagate_witness:
  "Call_get_structure_by_material_id (Some ''secret'') ''mp-2534''
     \<in> set (fst (generate_input_files offline_world example_generate_args)) \<and>
   raised offline_world (Call_get_structure_by_material_id (Some ''secret'') ''mp-2534'')
     = Some (Failure ''connection refused'') \<and>
   snd (generate_input_files offline_world example_generate_args)
     = Inl (Failure ''connection refused'') \<and>
   Call_get_structure_by_material_id (Some ''secret'') ''mp-2534''
     \<in> set (fst (parse_vasp_output offline_world example_output_args)) \<and>
   snd (parse_vasp_output offline_world example_output_args)
     = Inl (Failure ''connection refused'') \<and>
   Call_get_structure_by_material_id (Some ''secret'') ''mp-2534''
     \<in> set (fst (main offline_world (Parse_vasp_output
          \<lparr> opt_mpid = Some ''MP-2534'', opt_mapi_key = Some ''secret'',
            opt_dir = Some ''runs'' \<rparr>))) \<and>
   snd (main offline_world (Parse_vasp_output
          \<lparr> opt_mpid = Some ''MP-2534'', opt_mapi_key = Some ''secret'',
            opt_dir = Some ''runs'' \<rparr>))
     = Inl (Failure ''connection refused'') \<and>
   Call_int ''low'' \<in> set (fst (generate_input_files example_world malformed_bound_args)) \<and>
   raised example_world (Call_int ''low'') = Some (ValueError ''low'') \<and>
   snd (generate_input_files example_world malformed_bound_args) = Inl (ValueError ''low'')"
proof -
  let ?ev = "Call_get_structure_by_material_id (Some ''secret'') ''mp-2534''
    :: (string, string, string) call"
  let ?cl = "Parse_vasp_output
          \<lparr> opt_mpid = Some ''MP-2534'', opt_mapi_key = Some ''secret'',
            opt_dir = Some ''runs'' \<rparr>"
  have g: "?ev \<in> set (fst (generate_input_files offline_world example_generate_args))"
    by (simp add: offline_generate_run)
  have p: "?ev \<in> set (fst (parse_vasp_output offline_world example_output_args))"
    by (simp add: offline_output_run)
  have "parse_output_args \<lparr> opt_mpid = Some ''MP-2534'', opt_mapi_key = Some ''secret'',
            opt_dir = Some ''runs'' \<rparr> = example_output_args"
    by (simp add: parse_output_args_def example_output_args_def)
  then have "main offline_world ?cl = parse_vasp_output offline_world example_output_args"
    by (simp add: main_def)
  with p have m: "?ev \<in> set (fst (main offline_world ?cl))" by simp
  have r: "raised offline_world ?ev = Some (Failure ''connection refused'')"
    by (simp add: offline_world_def example_world_def)
  have i: "Call_int ''low''
      \<in> set (fst (generate_input_files example_world malformed_bound_args))"
    by (simp add: malformed_bound_run)
  have v: "raised example_world (Call_int ''low'') = Some (ValueError ''low'')"
    by (simp add: example_world_def)
  from failures_propagate [of offline_world example_generate_args example_output_args ?cl]
    g p m r
  have offline: "snd (generate_input_files offline_world example_generate_args)
       = Inl (Failure ''connection refused'') \<and>
     snd (parse_vasp_output offline_world example_output_args)
       = Inl (Failure ''connection refused'') \<and>
     snd (main offline_world ?cl) = Inl (Failure ''connection refused'')"
    by blast
  from failures_propagate [of example_world malformed_bound_args example_output_args ?cl]
    i v
  have "snd (generate_input_files example_world malformed_bound_args)
      = Inl (ValueError ''low'')"
    by blast
  with offline g p m r i v show ?thesis by blast
qed

subsection \<open>The identifier is lowercased\<close>

text \<open>
  C8. Through \<^verbatim>\<open>main\<close>, the identifier of every fetch and of every call of
  \<^verbatim>\<open>PostProcess\<close> is \<^verbatim>\<open>str.lower\<close> of the \<^verbatim>\<open>--mpid\<close> typed, and that string has
  no capital letter A to Z.
\<close>

theorem mpid_is_lowercased:
  assumes "opt_mpid og = Some m" and "opt_mpid ob = Some m'"
  shows
    "(\<forall>k i. Call_get_structure_by_material_id k i
         \<in> set (fst (main w (Generate_input_files og))) \<longrightarrow> i = str_lower m) \<and>
     (\<forall>k i. Call_get_structure_by_material_id k i
         \<in> set (fst (main w (Parse_vasp_output ob))) \<longrightarrow> i = str_lower m') \<and>
     (\<forall>r i k. Call_PostProcess r i k
         \<in> set (fst (main w (Parse_vasp_output ob))) \<longrightarrow> i = str_lower m') \<and>
     (\<forall>c \<in> set (str_lower m) \<union> set (str_lower m').
         \<not> (65 \<le> (of_char c :: nat) \<and> (of_char c :: nat) \<le> 90))"
proof -
  have "every_call (\<lambda>ev. case ev of
       Call_get_structure_by_material_id k i \<Rightarrow> i = str_lower m | _ \<Rightarrow> True)
     (main w (Generate_input_files og))"
  proof (rule main_generate_every_call)
    fix a assume "parse_generate_args w og = Inr a"
    from parse_generate_args_fields [OF this] assms(1)
    have "mpid a = Some (str_lower m)" by simp
    show "every_call (\<lambda>ev. case ev of
       Call_get_structure_by_material_id k i \<Rightarrow> i = str_lower m | _ \<Rightarrow> True)
       (generate_input_files w a)"
      unfolding every_call_def list_all_iff
    proof
      fix ev assume "ev \<in> set (fst (generate_input_files w a))"
      from every_callD [OF generate_client_calls [of a w] this] \<open>mpid a = Some (str_lower m)\<close>
      show "case ev of
         Call_get_structure_by_material_id k i \<Rightarrow> i = str_lower m | _ \<Rightarrow> True"
        by (cases ev) simp_all
    qed
  qed
  then have g: "i = str_lower m"
    if "Call_get_structure_by_material_id k i
         \<in> set (fst (main w (Generate_input_files og)))" for k i
    using every_callD [OF _ that] by fastforce
  have "mpid (parse_output_args ob) = Some (str_lower m')"
    using assms(2) by (simp add: parse_output_args_def)
  with every_callD [OF output_client_calls [of "parse_output_args ob" w]]
  have p: "i = str_lower m'"
    if "Call_get_structure_by_material_id k i
         \<in> set (fst (main w (Parse_vasp_output ob))) \<or>
        Call_PostProcess r i k'
         \<in> set (fst (main w (Parse_vasp_output ob)))" for r k k' i
    using that by (fastforce simp: main_def)
  have l: "\<not> (65 \<le> (of_char c :: nat) \<and> (of_char c :: nat) \<le> 90)"
    if "c \<in> set (str_lower m) \<union> set (str_lower m')" for c
    using that lower_char_not_capital by (auto simp: str_lower_def)
  from g p l show ?thesis by blast
qed

text \<open>
  The identifier typed as \<^verbatim>\<open>MP-2534\<close> is fetched and post-processed as \<^verbatim>\<open>mp-2534\<close>.
\<close>

theorem mpid_is_lowercased_witness:
  "opt_mpid default_nmax_options = Some ''MP-2534'' \<and>
   opt_mpid uppercase_output_options = Some ''MP-2534'' \<and>
   Call_get_structure_by_material_id None ''mp-2534''
     \<in> set (fst (main example_world (Generate_input_files default_nmax_options))) \<and>
   Call_PostProcess (Some ''runs'') ''mp-2534'' None
     \<in> set (fst (main example_world (Parse_vasp_output uppercase_output_options))) \<and>
   ''mp-2534'' = str_lower ''MP-2534''"
proof -
  have o: "opt_mpid default_nmax_options = Some ''MP-2534''"
    "opt_mpid uppercase_output_options = Some ''MP-2534''"
    by (simp_all add: default_nmax_options_def uppercase_output_options_def)
  have m: "Call_get_structure_by_material_id None ''mp-2534''
     \<in> set (fst (main example_world (Generate_input_files default_nmax_options)))"
    "Call_PostProcess (Some ''runs'') ''mp-2534'' None
     \<in> set (fst (main example_world (Parse_vasp_output uppercase_output_options)))"
    by (simp_all add: default_nmax_main_run uppercase_output_main_run)
  from mpid_is_lowercased [OF o, of example_world] o m show ?thesis by blast
qed

subsection \<open>The fetched structure in \<open>parse_vasp_output\<close>\<close>

text \<open>
  C9. \<^verbatim>\<open>parse_vasp_output\<close> does not use the structure it fetches: two worlds that
  differ only in what the fetch returns (and agree on whether and what it raises) give the
  same run, calls and outcome; and every call of \<^verbatim>\<open>PostProcess\<close> has the arguments
  \<^verbatim>\<open>(root_fldr, mpid, mapi_key)\<close>.
\<close>

theorem fetched_structure_is_discarded:
  assumes "\<forall>k i. raising (g k i) = raising (g' k i)"
  shows "parse_vasp_output (w \<lparr> get_structure_by_material_id := g \<rparr>) b =
         parse_vasp_output (w \<lparr> get_structure_by_material_id := g' \<rparr>) b \<and>
         (\<forall>r i k. Call_PostProcess r i k \<in> set (fst (parse_vasp_output w b)) \<longrightarrow>
            r = root_fldr b \<and> mpid b = Some i \<and> k = mapi_key b)"
proof -
  have same: "andThen (with_MPRester (w \<lparr> get_structure_by_material_id := g \<rparr>) k i) (\<lambda>_. c)
      = andThen (with_MPRester (w \<lparr> get_structure_by_material_id := g' \<rparr>) k i) (\<lambda>_. c)"
    for k i and c :: "('a, 'b, 'c, unit) run"
    using assms [rule_format, of k i]
    by (cases "g k i"; cases "g' k i")
       (simp_all add: with_MPRester_eq andThen_def split: sum.splits)
  have eq: "parse_vasp_output (w \<lparr> get_structure_by_material_id := g \<rparr>) b =
         parse_vasp_output (w \<lparr> get_structure_by_material_id := g' \<rparr>) b"
    unfolding parse_vasp_output_def fetch_branches
    by (simp add: same split: option.splits)
  have post: "r = root_fldr b \<and> mpid b = Some i \<and> k = mapi_key b"
    if "Call_PostProcess r i k \<in> set (fst (parse_vasp_output w b))" for r i k
    using every_callD [OF output_client_calls [of b w] that] by simp
  from eq post show ?thesis by blast
qed

text \<open>
  Two worlds whose databases return different structures give the same run.
\<close>

theorem fetched_structure_is_discarded_witness:
  "parse_vasp_output example_world example_output_args =
     parse_vasp_output relabelled_world example_output_args \<and>
   get_structure_by_material_id example_world (Some ''secret'') ''mp-2534''
     \<noteq> get_structure_by_material_id relabelled_world (Some ''secret'') ''mp-2534'' \<and>
   Call_PostProcess (Some ''runs'') ''mp-2534'' (Some ''secret'')
     \<in> set (fst (parse_vasp_output example_world example_output_args))"
proof -
  have r: "\<forall>k i. raising (get_structure_by_material_id example_world k i)
      = raising ((\<lambda>k i. Inr ''another primitive'') k i)"
    by (simp add: example_world_def)
  have w: "example_world
      \<lparr> get_structure_by_material_id := get_structure_by_material_id example_world \<rparr>
      = example_world"
    by simp
  from fetched_structure_is_discarded [OF r, of example_world example_output_args]
  have "parse_vasp_output example_world example_output_args =
     parse_vasp_output relabelled_world example_output_args"
    unfolding w relabelled_world_def by blast
  moreover have "get_structure_by_material_id example_world (Some ''secret'') ''mp-2534''
     \<noteq> get_structure_by_material_id relabelled_world (Some ''secret'') ''mp-2534''"
    by (simp add: relabelled_world_def example_world_def)
  moreover have "Call_PostProcess (Some ''runs'') ''mp-2534'' (Some ''secret'')
     \<in> set (fst (parse_vasp_output example_world example_output_args))"
    by (simp add: example_output_run)
  ultimately show ?thesis by blast
qed

subsection \<open>The dielectric files\<close>

text \<open>
  C10. In \<^verbatim>\<open>generate_input_files\<close> the dielectric files are written from the structure
  as the database returned it, which is also what is converted; only the enumerator and
  the reduced formula for the defect files take the conventional cell. When the
  conventional cell differs from the fetched structure, no dielectric file is written from
  it; and a run that returns has written the dielectric files from the fetched structure.
\<close>

theorem dielectric_files_from_primitive_cell:
  "(\<forall>s. Call_make_vasp_dielectric_files s \<in> set (fst (generate_input_files w a)) \<longrightarrow>
      (\<exists>i. mpid a = Some i \<and>
         get_structure_by_material_id w (client_key (mapi_key a)) i = Inr s)) \<and>
   (\<forall>s. Call_get_conventional_standard_structure s \<in> set (fst (generate_input_files w a))
      \<longrightarrow> (\<exists>i. mpid a = Some i \<and>
         get_structure_by_material_id w (client_key (mapi_key a)) i = Inr s)) \<and>
   (\<forall>s arg n. Call_ChargedDefectsStructures s arg n \<in> set (fst (generate_input_files w a))
      \<longrightarrow> (\<exists>i prim. mpid a = Some i \<and>
         get_structure_by_material_id w (client_key (mapi_key a)) i = Inr prim \<and>
         get_conventional_standard_structure w prim = Inr s)) \<and>
   (\<forall>s. Call_reduced_formula s \<in> set (fst (generate_input_files w a))
      \<longrightarrow> (\<exists>i prim. mpid a = Some i \<and>
         get_structure_by_material_id w (client_key (mapi_key a)) i = Inr prim \<and>
         get_conventional_standard_structure w prim = Inr s)) \<and>
   (\<forall>i prim conv. mpid a = Some i \<and>
       get_structure_by_material_id w (client_key (mapi_key a)) i = Inr prim \<and>
       get_conventional_standard_structure w prim = Inr conv \<and> conv \<noteq> prim \<longrightarrow>
       Call_make_vasp_dielectric_files conv \<notin> set (fst (generate_input_files w a))) \<and>
   (\<forall>i. mpid a = Some i \<and> i \<noteq> [] \<and> snd (generate_input_files w a) = Inr () \<longrightarrow>
       (\<exists>prim. get_structure_by_material_id w (client_key (mapi_key a)) i = Inr prim \<and>
          Call_make_vasp_dielectric_files prim \<in> set (fst (generate_input_files w a))))"
proof -
  let ?k = "client_key (mapi_key a)"
  let ?fetched = "\<lambda>s. \<exists>i. mpid a = Some i \<and> get_structure_by_material_id w ?k i = Inr s"
  let ?converted = "\<lambda>s. \<exists>i prim. mpid a = Some i \<and>
         get_structure_by_material_id w ?k i = Inr prim \<and>
         get_conventional_standard_structure w prim = Inr s"
  let ?P = "\<lambda>ev. case ev of
      Call_make_vasp_dielectric_files s \<Rightarrow> ?fetched s
    | Call_get_conventional_standard_structure s \<Rightarrow> ?fetched s
    | Call_ChargedDefectsStructures s arg n \<Rightarrow> ?converted s
    | Call_reduced_formula s \<Rightarrow> ?converted s
    | _ \<Rightarrow> True"
  have all: "every_call ?P (generate_input_files w a)"
    by (rule generate_every_call) auto
  have d: "?fetched s"
    if "Call_make_vasp_dielectric_files s \<in> set (fst (generate_input_files w a))" for s
    using every_callD [OF all that] by simp
  have c: "?fetched s"
    if "Call_get_conventional_standard_structure s \<in> set (fst (generate_input_files w a))"
    for s
    using every_callD [OF all that] by simp
  have e: "?converted s"
    if "Call_ChargedDefectsStructures s arg n \<in> set (fst (generate_input_files w a))"
    for s arg n
    using every_callD [OF all that] by simp
  have f: "?converted s"
    if "Call_reduced_formula s \<in> set (fst (generate_input_files w a))" for s
    using every_callD [OF all that] by simp
  have n: "Call_make_vasp_dielectric_files conv \<notin> set (fst (generate_input_files w a))"
    if "mpid a = Some i \<and> get_structure_by_material_id w ?k i = Inr prim \<and>
       get_conventional_standard_structure w prim = Inr conv \<and> conv \<noteq> prim"
    for i prim conv
    using that d [of conv] by auto
  have l: "\<exists>prim. get_structure_by_material_id w ?k i = Inr prim \<and>
          Call_make_vasp_dielectric_files prim \<in> set (fst (generate_input_files w a))"
    if "mpid a = Some i \<and> i \<noteq> [] \<and> snd (generate_input_files w a) = Inr ()" for i
  proof -
    from that have "snd (generate_input_files w a) = Inr ()" "mpid a = Some i" "i \<noteq> []"
      by simp_all
    from generate_returns [OF this] obtain prim conv arg c ds f where
      "get_structure_by_material_id w ?k i = Inr prim" and
      tr: "fst (generate_input_files w a) =
        [Call_MPRester ?k, Call_get_structure_by_material_id ?k i, Call_MPRester_exit ?k,
         Call_get_conventional_standard_structure prim,
         Call_make_vasp_dielectric_files prim]
        @ map Call_int
            (case oxi_range a of
               None \<Rightarrow> []
             | Some xs \<Rightarrow> concat (map (\<lambda>(el, lo, hi). [lo, hi]) xs))
        @ [Call_ChargedDefectsStructures conv arg (nmax a), Call_defects c,
           Call_reduced_formula conv, Call_make_vasp_defect_files ds f]"
      by blast
    moreover have "Call_make_vasp_dielectric_files prim
        \<in> set (fst (generate_input_files w a))"
      unfolding tr by simp
    ultimately show ?thesis by blast
  qed
  from d c e f n l show ?thesis by blast
qed

text \<open>
  In the example run the dielectric files are written from the primitive structure and
  not from the conventional one.
\<close>

theorem dielectric_files_from_primitive_cell_witness:
  "Call_make_vasp_dielectric_files ''primitive''
     \<in> set (fst (generate_input_files example_world example_generate_args)) \<and>
   get_structure_by_material_id example_world
     (client_key (mapi_key example_generate_args)) ''mp-2534'' = Inr ''primitive'' \<and>
   get_conventional_standard_structure example_world ''primitive'' = Inr ''conventional'' \<and>
   Call_make_vasp_dielectric_files ''conventional''
     \<notin> set (fst (generate_input_files example_world example_generate_args)) \<and>
   (\<exists>i prim. mpid example_generate_args = Some i \<and>
      get_structure_by_material_id example_world
        (client_key (mapi_key example_generate_args)) i = Inr prim \<and>
      get_conventional_standard_structure example_world prim = Inr ''conventional'')"
proof -
  have m: "Call_make_vasp_dielectric_files ''primitive''
     \<in> set (fst (generate_input_files example_world example_generate_args))"
    "Call_ChargedDefectsStructures ''conventional''
       (Some [''Ga'' \<mapsto> (1, 3), ''As'' \<mapsto> (- 3, 5)]) 64
     \<in> set (fst (generate_input_files example_world example_generate_args))"
    by (simp_all add: example_generate_run)
  have w: "mpid example_generate_args = Some ''mp-2534''"
    "get_structure_by_material_id example_world
     (client_key (mapi_key example_generate_args)) ''mp-2534'' = Inr ''primitive''"
    "get_conventional_standard_structure example_world ''primitive'' = Inr ''conventional''"
    "''conventional'' \<noteq> ''primitive''"
    by (simp_all add: example_world_def example_generate_args_def)
  from dielectric_files_from_primitive_cell [of example_world example_generate_args] m w
  show ?thesis by blast
qed

end
